theory Spec2Isabelle
  imports Main "HOL-Library.Word"
begin

section \<open>The part writer and its commit protocol (MergedBlockOutputStream.cpp)\<close>

text \<open>
  A shallow embedding of \<^verbatim>\<open>MergedBlockOutputStream\<close> and of its commit handle
  \<^verbatim>\<open>Finalizer\<close>. The collaborators of the writer (the per-column serializer, the part
  storage with its transaction, the file buffers) are not part of the file: every call
  on one of them is recorded, in program order, as an \<open>event\<close> of a trace, and what a
  collaborator returns is a field of a record of functions. Calls on collaborators are
  taken to return normally; the exceptions modelled are the ones the file itself throws.
\<close>

subsection \<open>Data\<close>

type_synonym name = string

datatype error_code = LOGICAL_ERROR

text \<open>\<^verbatim>\<open>Exception(code, message)\<close>, the message with its arguments formatted in.\<close>

datatype exn = Exception error_code string

text \<open>
  A block is represented by its columns, each with its name and its \<^verbatim>\<open>size_t\<close>
  number of rows; the cell values play no role in this file.
\<close>

type_synonym block = "(name \<times> 64 word) list"

type_synonym permutation = "nat list"

text \<open>\<^verbatim>\<open>MergeTreeDataPartChecksum\<close>: the fields of one entry of \<^verbatim>\<open>checksums.files\<close>.\<close>

record checksum =
  file_size :: nat
  file_hash :: nat
  is_compressed :: bool
  uncompressed_size :: nat
  uncompressed_hash :: nat

definition default_checksum :: checksum where
  "default_checksum =
     \<lparr>file_size = 0, file_hash = 0, is_compressed = False,
      uncompressed_size = 0, uncompressed_hash = 0\<rparr>"

text \<open>\<^verbatim>\<open>checksums.files\<close> is a \<^verbatim>\<open>std::map<String, Checksum>\<close>.\<close>

type_synonym checksums = "name \<rightharpoonup> checksum"

text \<open>
  TTL info of a part. The field names are the ones \<^verbatim>\<open>TTLCalcTransform.cpp\<close> reads; a
  bound is the pair (min, max) of the timestamps observed, \<open>None\<close> while nothing was
  observed.
\<close>

type_synonym ttl_info = "(nat \<times> nat) option"

record ttl_infos =
  table_ttl :: ttl_info
  rows_where_ttl :: "name \<rightharpoonup> ttl_info"
  group_by_ttl :: "name \<rightharpoonup> ttl_info"
  columns_ttl :: "name \<rightharpoonup> ttl_info"
  moves_ttl :: "name \<rightharpoonup> ttl_info"
  recompression_ttl :: "name \<rightharpoonup> ttl_info"

text \<open>The value-initialised structure, \<^verbatim>\<open>ttl_infos = {}\<close>.\<close>

definition empty_ttl_infos :: ttl_infos where
  "empty_ttl_infos =
     \<lparr>table_ttl = None, rows_where_ttl = Map.empty, group_by_ttl = Map.empty,
      columns_ttl = Map.empty, moves_ttl = Map.empty, recompression_ttl = Map.empty\<rparr>"

type_synonym columns_list = "(name \<times> string) list"

type_synonym serialization_infos = "(name \<times> nat) list"

type_synonym columns_substreams = "(name \<times> name list) list"

type_synonym index_granularity = "nat list"

text \<open>What a writer callback puts into a file, before it is turned into bytes.\<close>

datatype content =
    UUIDText nat
  | PartitionBinary string
  | MinMaxBinary name
  | SourcePartsBinary "name list"
  | IntText int
  | TTLInfosText ttl_infos
  | SerializationJSON serialization_infos
  | ColumnsText columns_list
  | SubstreamsText columns_substreams
  | CodecText string
  | ChecksumsText checksums

text \<open>
  The data part under construction (\<^verbatim>\<open>new_part\<close>): the members the file reads or
  assigns. \<open>partition\<close> is what \<^verbatim>\<open>partition.store\<close> serialises, \<open>None\<close> when it returns
  no file; \<open>minmax_columns\<close> are the partition-key columns of the min-max index.
\<close>

record data_part =
  part_name :: name
  is_projection_part :: bool
  uuid :: nat
  format_version :: nat
  partition :: "string option"
  minmax_initialized :: bool
  minmax_columns :: "name list"
  source_parts_set :: "name list"
  part_ttl_infos :: ttl_infos
  part_serialization_infos :: serialization_infos
  part_columns :: columns_list
  part_columns_substreams :: columns_substreams
  metadata_version :: int
  projection_parts :: "(name \<times> checksums) list"
  rows_count_of_part :: "64 word"
  modification_time :: nat
  part_checksums :: checksums
  bytes_on_disk :: nat
  bytes_uncompressed_on_disk :: nat
  part_index_granularity :: index_granularity
  part_index :: "nat list option"
  existing_rows_count :: "64 word option"
  part_default_codec :: "string option"
  enable_index_granularity_compression :: bool

text \<open>Calls on the collaborators, in program order.\<close>

datatype event =
    WriterWrite block "permutation option"
  | WriterFillChecksums
  | WriterFinish bool
  | WriterCancel
  | WriteFile name content
  | FileFinalize name
  | FileSync name
  | FileCancel name
  | CommitTransaction
  | BeginTransaction
  | RemoveFile name

text \<open>The world outside the stream object: the trace and the part \<^verbatim>\<open>new_part\<close> points to.\<close>

record world =
  events :: "event list"
  part :: data_part

definition emit :: "event list \<Rightarrow> world \<Rightarrow> world" where
  "emit es w = w\<lparr>events := events w @ es\<rparr>"

subsection \<open>The commit handle\<close>

text \<open>
  \<^verbatim>\<open>Finalizer::Impl\<close>. The writer and the part are references into the world; a pending
  file is identified by its name; \<^verbatim>\<open>files_to_remove_after_finish\<close> is a \<^verbatim>\<open>NameSet\<close>,
  here the list of its elements in iteration order.
\<close>

record Impl =
  files_to_remove_after_finish :: "name list"
  written_files :: "name list"
  sync :: bool

text \<open>\<^verbatim>\<open>Finalizer\<close> owns a \<^verbatim>\<open>std::unique_ptr<Impl>\<close>: \<open>None\<close> is the null pointer.\<close>

record Finalizer =
  impl :: "Impl option"

text \<open>The first loop of \<^verbatim>\<open>Impl::finish\<close>: finalize each file, and sync it when asked.\<close>

fun finalize_files :: "bool \<Rightarrow> name list \<Rightarrow> world \<Rightarrow> world" where
  "finalize_files sy [] w = w"
| "finalize_files sy (file # files) w =
     (let w1 = emit [FileFinalize file] w;
          w2 = (if sy then emit [FileSync file] w1 else w1)
      in finalize_files sy files w2)"

fun remove_files :: "name list \<Rightarrow> world \<Rightarrow> world" where
  "remove_files [] w = w"
| "remove_files (file_name # rest) w = remove_files rest (emit [RemoveFile file_name] w)"

definition Impl_finish :: "Impl \<Rightarrow> world \<Rightarrow> world" where
  "Impl_finish i w =
     (let w1 = emit [WriterFinish (sync i)] w;
          w2 = finalize_files (sync i) (written_files i) w1;
          w3 = (if files_to_remove_after_finish i \<noteq> []
                then emit [BeginTransaction] (emit [CommitTransaction] w2)
                else w2)
      in remove_files (files_to_remove_after_finish i) w3)"

fun cancel_files :: "name list \<Rightarrow> world \<Rightarrow> world" where
  "cancel_files [] w = w"
| "cancel_files (file # files) w = cancel_files files (emit [FileCancel file] w)"

definition Impl_cancel :: "Impl \<Rightarrow> world \<Rightarrow> world" where
  "Impl_cancel i w = cancel_files (written_files i) (emit [WriterCancel] w)"

text \<open>
  \<^verbatim>\<open>Finalizer::finish\<close> and \<^verbatim>\<open>Finalizer::cancel\<close>: the pointer is moved out of the handle
  before the body runs, so the handle is left null whatever the body does.
\<close>

definition Finalizer_finish :: "Finalizer \<Rightarrow> world \<Rightarrow> Finalizer \<times> world" where
  "Finalizer_finish h w =
     (let to_finish = impl h;
          h' = h\<lparr>impl := None\<rparr>
      in case to_finish of
           Some i \<Rightarrow> (h', Impl_finish i w)
         | None \<Rightarrow> (h', w))"

definition Finalizer_cancel :: "Finalizer \<Rightarrow> world \<Rightarrow> Finalizer \<times> world" where
  "Finalizer_cancel h w =
     (let to_cancel = impl h;
          h' = h\<lparr>impl := None\<rparr>
      in case to_cancel of
           Some i \<Rightarrow> (h', Impl_cancel i w)
         | None \<Rightarrow> (h', w))"

text \<open>\<^verbatim>\<open>Finalizer::~Finalizer\<close>; the handle does not exist afterwards.\<close>

definition Finalizer_destroy :: "Finalizer \<Rightarrow> world \<Rightarrow> world" where
  "Finalizer_destroy h w = (if impl h \<noteq> None then snd (Finalizer_cancel h w) else w)"

subsection \<open>The stream object and its collaborators\<close>

text \<open>
  What the per-column serializer (\<^verbatim>\<open>IMergeTreeDataPartWriter\<close>) answers when asked.
  \<open>fillChecksums\<close> takes the checksums handed in and returns them filled, with the names
  it puts into \<^verbatim>\<open>checksums_to_remove\<close>.
\<close>

record part_writer =
  fillChecksums :: "checksums \<Rightarrow> checksums \<times> name list"
  getIndexGranularity :: index_granularity
  releaseIndexColumns :: "nat list option"
  getColumnsSubstreams :: columns_substreams

text \<open>
  The other functions and constants the file uses and does not define: the hashing
  buffer, the serialization statistics, the base class's column pruning, the totals of a
  checksum set, the granularity post-pass, the clock, and the format-version constant
  \<^verbatim>\<open>MERGE_TREE_DATA_MIN_FORMAT_VERSION_WITH_CUSTOM_PARTITIONING\<close>.
\<close>

record collaborators =
  hash_count :: "content \<Rightarrow> nat"
  hash_value :: "content \<Rightarrow> nat"
  serialization_add :: "serialization_infos \<Rightarrow> block \<Rightarrow> serialization_infos"
  replaceData :: "serialization_infos \<Rightarrow> serialization_infos \<Rightarrow> serialization_infos"
  removeEmptyColumnsFromPart ::
    "data_part \<Rightarrow> columns_list \<Rightarrow> serialization_infos \<Rightarrow> checksums
       \<Rightarrow> name list \<times> columns_list \<times> serialization_infos \<times> checksums"
  substreams_merge ::
    "columns_substreams \<Rightarrow> columns_substreams \<Rightarrow> name list \<Rightarrow> columns_substreams"
  getTotalSizeOnDisk :: "checksums \<Rightarrow> nat"
  getTotalSizeUncompressedOnDisk :: "checksums \<Rightarrow> nat"
  getTotalChecksumUInt128 :: "checksums \<Rightarrow> nat"
  optimize :: "index_granularity \<Rightarrow> index_granularity option"
  time_now :: nat
  MIN_FORMAT_VERSION_WITH_CUSTOM_PARTITIONING :: nat

text \<open>
  The members of \<^verbatim>\<open>MergedBlockOutputStream\<close> (with those of its base class that the file
  uses). \<open>default_codec\<close> is the codec's one-line description, \<open>None\<close> for \<^verbatim>\<open>nullptr\<close>;
  \<open>rows_count\<close> is a \<^verbatim>\<open>size_t\<close>.
\<close>

record stream =
  columns_list :: columns_list
  default_codec :: "string option"
  reset_columns :: bool
  rows_count :: "64 word"
  new_serialization_infos :: serialization_infos
  snapshot_metadata_version :: int
  writer :: part_writer

subsection \<open>Names and helpers declared outside the file\<close>

text \<open>Modelled from the spec: \<^verbatim>\<open>IMergeTreeDataPart::UUID_FILE_NAME\<close>, section 6 of the spec.\<close>

definition UUID_FILE_NAME :: name where
  "UUID_FILE_NAME = ''uuid.txt''"

text \<open>Modelled from the spec: \<^verbatim>\<open>SourcePartsSetForPatch::FILENAME\<close>, section 6.\<close>

definition SOURCE_PARTS_SET_FILENAME :: name where
  "SOURCE_PARTS_SET_FILENAME = ''source_parts_set''"

text \<open>Modelled from the spec: \<^verbatim>\<open>IMergeTreeDataPart::SERIALIZATION_FILE_NAME\<close>, section 6.\<close>

definition SERIALIZATION_FILE_NAME :: name where
  "SERIALIZATION_FILE_NAME = ''serialization.json''"

text \<open>Modelled from the spec: \<^verbatim>\<open>IMergeTreeDataPart::COLUMNS_SUBSTREAMS_FILE_NAME\<close>, section 6.\<close>

definition COLUMNS_SUBSTREAMS_FILE_NAME :: name where
  "COLUMNS_SUBSTREAMS_FILE_NAME = ''columns_substreams.txt''"

text \<open>Modelled from the spec: \<^verbatim>\<open>IMergeTreeDataPart::METADATA_VERSION_FILE_NAME\<close>, section 6.\<close>

definition METADATA_VERSION_FILE_NAME :: name where
  "METADATA_VERSION_FILE_NAME = ''metadata_version.txt''"

text \<open>
  Modelled from the spec: \<^verbatim>\<open>IMergeTreeDataPart::DEFAULT_COMPRESSION_CODEC_FILE_NAME\<close>,
  section 6.
\<close>

definition DEFAULT_COMPRESSION_CODEC_FILE_NAME :: name where
  "DEFAULT_COMPRESSION_CODEC_FILE_NAME = ''default_compression_codec.txt''"

text \<open>\<^verbatim>\<open>UUIDHelpers::Nil\<close>.\<close>

definition Nil_uuid :: nat where
  "Nil_uuid = 0"

text \<open>
  Modelled from the spec: \<^verbatim>\<open>Block::checkNumberOfRows\<close> and \<^verbatim>\<open>Block::rows\<close> are not in
  the sources. Section 4.1: a write "fails with a fatal internal-consistency error if
  the batch's row count is inconsistent across its columns". The row count of a block is
  the size of its first column, 0 for a block without columns.
\<close>

definition rows :: "block \<Rightarrow> 64 word" where
  "rows b = (case b of [] \<Rightarrow> 0 | c # _ \<Rightarrow> snd c)"

definition checkNumberOfRows :: "block \<Rightarrow> exn + unit" where
  "checkNumberOfRows b =
     (if list_all (\<lambda>c. snd c = rows b) b then Inr ()
      else Inl (Exception LOGICAL_ERROR ''Sizes of columns doesn't match''))"

text \<open>
  Modelled from the spec: \<^verbatim>\<open>MergeTreeDataPartTTLInfos::empty\<close> is not in the sources.
  Section 6: \<^verbatim>\<open>ttl.txt\<close> is written "only if any TTL bound recorded".
\<close>

definition ttl_infos_empty :: "ttl_infos \<Rightarrow> bool" where
  "ttl_infos_empty t \<longleftrightarrow> t = empty_ttl_infos"

text \<open>
  Modelled from the spec: \<^verbatim>\<open>Checksums::addFile\<close> is not in the sources. Section 4.2:
  one checksum entry per projection file, a (byte size, content hash) pair.
\<close>

definition addFile :: "checksums \<Rightarrow> name \<Rightarrow> nat \<Rightarrow> nat \<Rightarrow> checksums" where
  "addFile cs file_name sz h = cs(file_name \<mapsto> default_checksum\<lparr>file_size := sz, file_hash := h\<rparr>)"

subsection \<open>Writing the auxiliary files\<close>

text \<open>
  The variables the two lambdas of \<^verbatim>\<open>finalizePartOnDisk\<close> capture by reference: the
  world (storage and part), the checksums and the vector \<^verbatim>\<open>written_files\<close>.
\<close>

record disk =
  out_world :: world
  out_checksums :: checksums
  out_files :: "name list"

text \<open>
  \<^verbatim>\<open>write_hashed_file\<close>: \<^verbatim>\<open>checksums.files[filename]\<close> creates a default entry when the
  key is new and keeps the other fields of an entry that is there.
\<close>

definition write_hashed_file :: "collaborators \<Rightarrow> name \<Rightarrow> content \<Rightarrow> disk \<Rightarrow> disk" where
  "write_hashed_file env filename c st =
     (let entry = (case out_checksums st filename of None \<Rightarrow> default_checksum | Some e \<Rightarrow> e)
      in st\<lparr>out_world := emit [WriteFile filename c] (out_world st),
             out_checksums := (out_checksums st)
               (filename \<mapsto> entry\<lparr>file_size := hash_count env c, file_hash := hash_value env c\<rparr>),
             out_files := out_files st @ [filename]\<rparr>)"

definition write_plain_file :: "name \<Rightarrow> content \<Rightarrow> disk \<Rightarrow> disk" where
  "write_plain_file filename c st =
     st\<lparr>out_world := emit [WriteFile filename c] (out_world st),
        out_files := out_files st @ [filename]\<rparr>"

text \<open>
  Modelled from the spec: \<^verbatim>\<open>MergeTreePartition::store\<close> is not in the sources. Section 6:
  \<^verbatim>\<open>partition.dat\<close>, a hashed file; the source tests the pointer returned, so the part
  may have nothing to store.
\<close>

definition partition_store :: "collaborators \<Rightarrow> disk \<Rightarrow> disk" where
  "partition_store env st =
     (case partition (part (out_world st)) of
        None \<Rightarrow> st
      | Some v \<Rightarrow> write_hashed_file env ''partition.dat'' (PartitionBinary v) st)"

text \<open>
  Modelled from the spec: \<^verbatim>\<open>MinMaxIndex::store\<close> is not in the sources. Section 6:
  \<^verbatim>\<open>minmax_<col>.idx\<close>, one hashed file per partition-key column.
\<close>

definition minmax_file_name :: "name \<Rightarrow> name" where
  "minmax_file_name col = ''minmax_'' @ col @ ''.idx''"

fun minmax_store :: "collaborators \<Rightarrow> name list \<Rightarrow> disk \<Rightarrow> disk" where
  "minmax_store env [] st = st"
| "minmax_store env (col # cols) st =
     minmax_store env cols (write_hashed_file env (minmax_file_name col) (MinMaxBinary col) st)"

text \<open>Lines 304 to 338: the files of a part that is not a projection.\<close>

definition write_non_projection_files ::
  "stream \<Rightarrow> collaborators \<Rightarrow> disk \<Rightarrow> (exn + unit) \<times> disk" where
  "write_non_projection_files s env st =
     (let p = part (out_world st);
          st1 = (if uuid p \<noteq> Nil_uuid
                 then write_hashed_file env UUID_FILE_NAME (UUIDText (uuid p)) st else st)
      in if format_version p \<ge> MIN_FORMAT_VERSION_WITH_CUSTOM_PARTITIONING env then
           (let st2 = partition_store env st1
            in case (if minmax_initialized p then Inr (minmax_store env (minmax_columns p) st2)
                     else if rows_count s \<noteq> 0 then
                       Inl (Exception LOGICAL_ERROR
                         (''MinMax index was not initialized for new non-empty part '' @ part_name p))
                     else Inr st2) of
                 Inl e \<Rightarrow> (Inl e, st2)
               | Inr st3 \<Rightarrow>
                   (Inr (),
                    if source_parts_set p \<noteq> []
                    then write_hashed_file env SOURCE_PARTS_SET_FILENAME
                           (SourcePartsBinary (source_parts_set p)) st3
                    else st3))
         else (Inr (), st1))"

text \<open>Lines 341 to 392: from \<^verbatim>\<open>count.txt\<close> to the metadata version.\<close>

definition write_common_files ::
  "stream \<Rightarrow> collaborators \<Rightarrow> columns_substreams option \<Rightarrow> disk \<Rightarrow> disk" where
  "write_common_files s env additional_columns_substreams st =
     (let p = part (out_world st);
          st1 = write_hashed_file env ''count.txt'' (IntText (uint (rows_count s))) st;
          st2 = (if \<not> ttl_infos_empty (part_ttl_infos p)
                 then write_hashed_file env ''ttl.txt'' (TTLInfosText (part_ttl_infos p)) st1
                 else st1);
          st3 = (if part_serialization_infos p \<noteq> []
                 then write_hashed_file env SERIALIZATION_FILE_NAME
                        (SerializationJSON (part_serialization_infos p)) st2
                 else st2);
          st4 = write_plain_file ''columns.txt'' (ColumnsText (part_columns p)) st3;
          substreams = substreams_merge env (getColumnsSubstreams (writer s))
                         (case additional_columns_substreams of Some a \<Rightarrow> a | None \<Rightarrow> [])
                         (map fst (part_columns p));
          st5 = (if substreams \<noteq> []
                 then (let st' = write_plain_file COLUMNS_SUBSTREAMS_FILE_NAME
                                   (SubstreamsText substreams) st4
                       in st'\<lparr>out_world := (out_world st')
                            \<lparr>part := (part (out_world st'))\<lparr>part_columns_substreams := substreams\<rparr>\<rparr>\<rparr>)
                 else st4)
      in write_plain_file METADATA_VERSION_FILE_NAME (IntText (metadata_version p)) st5)"

text \<open>
  \<^verbatim>\<open>finalizePartOnDisk\<close>. The result carries the checksums and the world as they are when
  the function returns or throws.
\<close>

definition finalizePartOnDisk ::
  "stream \<Rightarrow> collaborators \<Rightarrow> columns_substreams option \<Rightarrow> checksums \<Rightarrow> world
     \<Rightarrow> (exn + name list) \<times> checksums \<times> world" where
  "finalizePartOnDisk s env additional_columns_substreams cs w =
     (let st0 = \<lparr>out_world = w, out_checksums = cs, out_files = []\<rparr>;
          r = (if \<not> is_projection_part (part w) then write_non_projection_files s env st0
               else (Inr (), st0))
      in case fst r of
           Inl e \<Rightarrow> (Inl e, out_checksums (snd r), out_world (snd r))
         | Inr _ \<Rightarrow>
             (let st1 = write_common_files s env additional_columns_substreams (snd r)
              in case default_codec s of
                   Some codec \<Rightarrow>
                     (let st2 = write_plain_file DEFAULT_COMPRESSION_CODEC_FILE_NAME
                                  (CodecText codec) st1;
                          st3 = write_plain_file ''checksums.txt''
                                  (ChecksumsText (out_checksums st2)) st2
                      in (Inr (out_files st3), out_checksums st3, out_world st3))
                 | None \<Rightarrow>
                     (Inl (Exception LOGICAL_ERROR
                        (''Compression codec have to be specified for part on disk, empty for ''
                           @ part_name (part (out_world st1)))),
                      out_checksums st1, out_world st1)))"

subsection \<open>Writing blocks\<close>

text \<open>\<^verbatim>\<open>writeImpl\<close>; \<^verbatim>\<open>rows_count += rows\<close> is an addition of \<^verbatim>\<open>size_t\<close> values.\<close>

definition writeImpl ::
  "collaborators \<Rightarrow> block \<Rightarrow> permutation option \<Rightarrow> stream \<times> world
     \<Rightarrow> (exn + unit) \<times> stream \<times> world" where
  "writeImpl env b permutation sw =
     (let s = fst sw; w = snd sw
      in case checkNumberOfRows b of
           Inl e \<Rightarrow> (Inl e, s, w)
         | Inr _ \<Rightarrow>
             (let rws = rows b
              in if rws = 0 then (Inr (), s, w)
                 else
                   (let w1 = emit [WriterWrite b permutation] w;
                        s1 = (if reset_columns s
                              then s\<lparr>new_serialization_infos :=
                                        serialization_add env (new_serialization_infos s) b\<rparr>
                              else s)
                    in (Inr (), s1\<lparr>rows_count := rows_count s1 + rws\<rparr>, w1))))"

text \<open>\<^verbatim>\<open>MergedBlockOutputStream::write\<close>, for data that is sorted already.\<close>

definition write_block ::
  "collaborators \<Rightarrow> block \<Rightarrow> stream \<times> world \<Rightarrow> (exn + unit) \<times> stream \<times> world" where
  "write_block env b sw = writeImpl env b None sw"

definition writeWithPermutation ::
  "collaborators \<Rightarrow> block \<Rightarrow> permutation \<Rightarrow> stream \<times> world \<Rightarrow> (exn + unit) \<times> stream \<times> world" where
  "writeWithPermutation env b permutation sw = writeImpl env b (Some permutation) sw"

text \<open>
  A caller's sequence of \<^verbatim>\<open>write\<close> and \<^verbatim>\<open>writeWithPermutation\<close> calls, a batch with its
  optional permutation; the first exception ends the sequence.
\<close>

fun write_all ::
  "collaborators \<Rightarrow> (block \<times> permutation option) list \<Rightarrow> stream \<times> world
     \<Rightarrow> (exn + unit) \<times> stream \<times> world" where
  "write_all env [] sw = (Inr (), sw)"
| "write_all env (bp # rest) sw =
     (let r = (case snd bp of None \<Rightarrow> write_block env (fst bp) sw
               | Some perm \<Rightarrow> writeWithPermutation env (fst bp) perm sw)
      in case fst r of Inl e \<Rightarrow> r | Inr _ \<Rightarrow> write_all env rest (snd r))"

subsection \<open>Finalization\<close>

text \<open>
  \<^verbatim>\<open>finalizePartAsync\<close>, lines 205 to 236: the checksums of the columns, of the
  projections, and the pruning of empty columns. The pointer arguments are options.
  \<^verbatim>\<open>setColumns\<close> assigns the columns, the serialization infos and the metadata version
  of the part. The result is \<^verbatim>\<open>files_to_remove_after_sync\<close>, the checksums and the world.
\<close>

definition prepare_checksums ::
  "stream \<Rightarrow> collaborators \<Rightarrow> columns_list option \<Rightarrow> checksums option \<Rightarrow> world
     \<Rightarrow> name list \<times> checksums \<times> world" where
  "prepare_checksums s env total_columns_list additional_column_checksums w =
     (let checksums0 = (case additional_column_checksums of Some c \<Rightarrow> c | None \<Rightarrow> Map.empty);
          filled = fillChecksums (writer s) checksums0;
          w1 = emit [WriterFillChecksums] w;
          checksums1 = fold (\<lambda>n cs. cs(n := None)) (snd filled) (fst filled);
          checksums2 = fold (\<lambda>pr cs. addFile cs (fst pr @ ''.proj'')
                                (getTotalSizeOnDisk env (snd pr))
                                (getTotalChecksumUInt128 env (snd pr)))
                         (projection_parts (part w1)) checksums1
      in if reset_columns s then
           (let cols = (case total_columns_list of Some t \<Rightarrow> t | None \<Rightarrow> columns_list s);
                infos = replaceData env (part_serialization_infos (part w1))
                          (new_serialization_infos s);
                res = removeEmptyColumnsFromPart env (part w1) cols infos checksums2
            in (fst res, snd (snd (snd res)),
                w1\<lparr>part := (part w1)\<lparr>part_columns := fst (snd res),
                                      part_serialization_infos := fst (snd (snd res)),
                                      metadata_version := snapshot_metadata_version s\<rparr>\<rparr>))
         else ([], checksums2, w1))"

text \<open>
  Lines 241 to 267: the members of the part assigned after the files are written. The
  call of \<^verbatim>\<open>calculateColumnsAndSecondaryIndicesSizesOnDisk\<close> fills size caches of the part
  that are not among the members above.
\<close>

definition assign_part_members ::
  "stream \<Rightarrow> collaborators \<Rightarrow> checksums \<Rightarrow> data_part \<Rightarrow> data_part" where
  "assign_part_members s env cs p =
     (let p1 = p\<lparr>rows_count_of_part := rows_count s,
                 modification_time := time_now env,
                 part_checksums := cs,
                 bytes_on_disk := getTotalSizeOnDisk env cs,
                 bytes_uncompressed_on_disk := getTotalSizeUncompressedOnDisk env cs,
                 part_index_granularity := getIndexGranularity (writer s)\<rparr>;
          p2 = (if enable_index_granularity_compression p1
                then (case optimize env (part_index_granularity p1) of
                        Some g \<Rightarrow> p1\<lparr>part_index_granularity := g\<rparr>
                      | None \<Rightarrow> p1)
                else p1);
          p3 = (case releaseIndexColumns (writer s) of
                  Some computed_index \<Rightarrow> p2\<lparr>part_index := Some computed_index\<rparr>
                | None \<Rightarrow> p2);
          p4 = (if existing_rows_count p3 = None
                then p3\<lparr>existing_rows_count := Some (rows_count s)\<rparr> else p3)
      in case default_codec s of
           Some c \<Rightarrow> p4\<lparr>part_default_codec := Some c\<rparr>
         | None \<Rightarrow> p4)"

text \<open>\<^verbatim>\<open>finalizePartAsync\<close>.\<close>

definition finalizePartAsync ::
  "stream \<Rightarrow> collaborators \<Rightarrow> bool \<Rightarrow> columns_list option \<Rightarrow> checksums option
     \<Rightarrow> columns_substreams option \<Rightarrow> world \<Rightarrow> (exn + Finalizer) \<times> world" where
  "finalizePartAsync s env sy total_columns_list additional_column_checksums
       additional_columns_substreams w =
     (let prepared = prepare_checksums s env total_columns_list additional_column_checksums w;
          files_to_remove_after_sync = fst prepared;
          on_disk = finalizePartOnDisk s env additional_columns_substreams
                      (fst (snd prepared)) (snd (snd prepared))
      in case fst on_disk of
           Inl e \<Rightarrow> (Inl e, snd (snd on_disk))
         | Inr written \<Rightarrow>
             (Inr \<lparr>impl = Some \<lparr>files_to_remove_after_finish = files_to_remove_after_sync,
                                written_files = written, sync = sy\<rparr>\<rparr>,
              (snd (snd on_disk))
                \<lparr>part := assign_part_members s env (fst (snd on_disk))
                            (part (snd (snd on_disk)))\<rparr>))"

text \<open>
  \<^verbatim>\<open>finalizePart\<close>: the handle returned by \<^verbatim>\<open>finalizePartAsync\<close> is a temporary, destroyed
  at the end of the statement, after \<^verbatim>\<open>finish\<close> has returned.
\<close>

definition finalizePart ::
  "stream \<Rightarrow> collaborators \<Rightarrow> bool \<Rightarrow> columns_list option \<Rightarrow> checksums option
     \<Rightarrow> columns_substreams option \<Rightarrow> world \<Rightarrow> (exn + unit) \<times> world" where
  "finalizePart s env sy total_columns_list additional_column_checksums
       additional_columns_substreams w =
     (case finalizePartAsync s env sy total_columns_list additional_column_checksums
             additional_columns_substreams w of
        (Inl e, w1) \<Rightarrow> (Inl e, w1)
      | (Inr h, w1) \<Rightarrow>
          (let r = Finalizer_finish h w1
           in (Inr (), Finalizer_destroy (fst r) (snd r))))"

section \<open>TTL bookkeeping (TTLCalcTransform.cpp)\<close>

text \<open>
  \<^verbatim>\<open>TTLCalcTransform\<close> builds one \<^verbatim>\<open>TTLUpdateInfoAlgorithm\<close> per TTL rule of the table,
  runs each of them on every chunk and, at the end of the stream, lets each store its
  bounds into the part. The transform is in the sources; the algorithm class and the
  metadata it is built from are declared elsewhere.
\<close>

text \<open>A TTL rule, reduced to what the transform reads: the name of its result column.\<close>

record ttl_description =
  result_column :: name


text \<open>The kinds of rule the constructor names.\<close>

datatype TTLUpdateField =
  COLUMNS_TTL | TABLE_TTL | ROWS_WHERE_TTL | MOVES_TTL | RECOMPRESSION_TTL | GROUP_BY_TTL

text \<open>
  Modelled from the spec: the class \<^verbatim>\<open>TTLUpdateInfoAlgorithm\<close> is not in the sources.
  Section 9: one record per rule carrying kind, result-column name, expression and
  previous bounds; section 4.3: it keeps a running min/max of the observed timestamps.
\<close>

record TTLUpdateInfoAlgorithm =
  description :: ttl_description
  ttl_update_field :: TTLUpdateField
  ttl_update_key :: name
  old_ttl_info :: ttl_info
  current_time :: nat
  force :: bool
  new_ttl_info :: ttl_info

text \<open>
  Modelled from the spec: the constructor of \<^verbatim>\<open>TTLUpdateInfoAlgorithm\<close> is not in the
  sources. Section 4.3: the running bound is "seeded from the part's pre-existing TTL
  info unless a force flag requests a clean recomputation".
\<close>

definition make_TTLUpdateInfoAlgorithm ::
  "ttl_description \<Rightarrow> TTLUpdateField \<Rightarrow> name \<Rightarrow> ttl_info \<Rightarrow> nat \<Rightarrow> bool \<Rightarrow> TTLUpdateInfoAlgorithm" where
  "make_TTLUpdateInfoAlgorithm descr field key old_info cur_time force_flag =
     \<lparr>description = descr, ttl_update_field = field, ttl_update_key = key,
      old_ttl_info = old_info, current_time = cur_time, force = force_flag,
      new_ttl_info = (if force_flag then None else old_info)\<rparr>"





text \<open>
  Modelled from the spec: \<^verbatim>\<open>TTLUpdateInfoAlgorithm::finalize\<close> is not in the sources.
  Section 4.3: it "persists the final per-rule bounds into the part's TTL info
  structure"; section 3: "keyed by the rule's result-column name where multiple
  instances of a kind may coexist".
\<close>

definition store_ttl_info :: "TTLUpdateInfoAlgorithm \<Rightarrow> ttl_infos \<Rightarrow> ttl_infos" where
  "store_ttl_info a infos =
     (case ttl_update_field a of
        TABLE_TTL \<Rightarrow> infos\<lparr>table_ttl := new_ttl_info a\<rparr>
      | ROWS_WHERE_TTL \<Rightarrow>
          infos\<lparr>rows_where_ttl := (rows_where_ttl infos)(ttl_update_key a \<mapsto> new_ttl_info a)\<rparr>
      | GROUP_BY_TTL \<Rightarrow>
          infos\<lparr>group_by_ttl := (group_by_ttl infos)(ttl_update_key a \<mapsto> new_ttl_info a)\<rparr>
      | COLUMNS_TTL \<Rightarrow>
          infos\<lparr>columns_ttl := (columns_ttl infos)(ttl_update_key a \<mapsto> new_ttl_info a)\<rparr>
      | MOVES_TTL \<Rightarrow>
          infos\<lparr>moves_ttl := (moves_ttl infos)(ttl_update_key a \<mapsto> new_ttl_info a)\<rparr>
      | RECOMPRESSION_TTL \<Rightarrow>
          infos\<lparr>recompression_ttl :=
                  (recompression_ttl infos)(ttl_update_key a \<mapsto> new_ttl_info a)\<rparr>)"

text \<open>
  Modelled from the spec: \<^verbatim>\<open>TTLUpdateInfoAlgorithm::finalize(data_part)\<close>, as above; it
  assigns into the TTL info of the part.
\<close>

definition algorithm_finalize :: "TTLUpdateInfoAlgorithm \<Rightarrow> data_part \<Rightarrow> data_part" where
  "algorithm_finalize a p = p\<lparr>part_ttl_infos := store_ttl_info a (part_ttl_infos p)\<rparr>"

text \<open>
  \<^verbatim>\<open>old_ttl_infos.rows_where_ttl[key]\<close> on the constructor's own copy of the infos:
  the entry, or a default-constructed one when the key is new.
\<close>

definition at_key :: "(name \<rightharpoonup> ttl_info) \<Rightarrow> name \<Rightarrow> ttl_info" where
  "at_key m k = (case m k of None \<Rightarrow> None | Some info \<Rightarrow> info)"




text \<open>\<^verbatim>\<open>TTLCalcTransform::finalize\<close>.\<close>

definition TTLCalcTransform_finalize :: "TTLUpdateInfoAlgorithm list \<Rightarrow> data_part \<Rightarrow> data_part" where
  "TTLCalcTransform_finalize algorithms p =
     fold algorithm_finalize algorithms (p\<lparr>part_ttl_infos := empty_ttl_infos\<rparr>)"


text \<open>The bound the infos hold for a rule, read the way the constructor reads it.\<close>

definition ttl_entry :: "ttl_infos \<Rightarrow> TTLUpdateField \<Rightarrow> name \<Rightarrow> ttl_info" where
  "ttl_entry infos field key =
     (case field of
        TABLE_TTL \<Rightarrow> table_ttl infos
      | ROWS_WHERE_TTL \<Rightarrow> at_key (rows_where_ttl infos) key
      | GROUP_BY_TTL \<Rightarrow> at_key (group_by_ttl infos) key
      | COLUMNS_TTL \<Rightarrow> at_key (columns_ttl infos) key
      | MOVES_TTL \<Rightarrow> at_key (moves_ttl infos) key
      | RECOMPRESSION_TTL \<Rightarrow> at_key (recompression_ttl infos) key)"

text \<open>The algorithm writes the entry of this kind and key.\<close>

definition same_rule :: "TTLUpdateField \<Rightarrow> name \<Rightarrow> TTLUpdateInfoAlgorithm \<Rightarrow> bool" where
  "same_rule field key a \<longleftrightarrow>
     ttl_update_field a = field \<and> (field = TABLE_TTL \<or> ttl_update_key a = key)"

section \<open>Traces\<close>

text \<open>The events a step adds to the trace.\<close>

definition new_events :: "world \<Rightarrow> world \<Rightarrow> event list" where
  "new_events w w' = drop (length (events w)) (events w')"

text \<open>What one iteration of the first loop of \<^verbatim>\<open>Impl::finish\<close> does to a file.\<close>

definition file_events :: "bool \<Rightarrow> name \<Rightarrow> event list" where
  "file_events sy f = FileFinalize f # (if sy then [FileSync f] else [])"

text \<open>A caller's calls on one handle, in order.\<close>

datatype handle_call = Finish | Cancel

fun call_handle :: "handle_call \<Rightarrow> Finalizer \<times> world \<Rightarrow> Finalizer \<times> world" where
  "call_handle Finish hw = Finalizer_finish (fst hw) (snd hw)"
| "call_handle Cancel hw = Finalizer_cancel (fst hw) (snd hw)"

text \<open>The names of the files opened for writing in a trace, in order.\<close>

fun written_names :: "event list \<Rightarrow> name list" where
  "written_names [] = []"
| "written_names (WriteFile n c # es) = n # written_names es"
| "written_names (e # es) = written_names es"

text \<open>The event of writing a file with a content.\<close>

definition write_event :: "name \<times> content \<Rightarrow> event" where
  "write_event nc = WriteFile (fst nc) (snd nc)"

text \<open>
  The files each part of \<^verbatim>\<open>finalizePartOnDisk\<close> writes, with their contents, in order:
  the min-max index, the source parts set, the files of a part that is not a projection
  (lines 304 to 338), the files from \<^verbatim>\<open>count.txt\<close> to the metadata version (lines 341 to
  392), and all the files before \<^verbatim>\<open>checksums.txt\<close>.
\<close>

definition minmax_writes :: "name list \<Rightarrow> (name \<times> content) list" where
  "minmax_writes cols = map (\<lambda>col. (minmax_file_name col, MinMaxBinary col)) cols"

definition source_parts_writes :: "data_part \<Rightarrow> (name \<times> content) list" where
  "source_parts_writes p =
     (if source_parts_set p \<noteq> []
      then [(SOURCE_PARTS_SET_FILENAME, SourcePartsBinary (source_parts_set p))] else [])"

text \<open>The condition under which line 327 throws.\<close>

definition minmax_fails :: "stream \<Rightarrow> collaborators \<Rightarrow> data_part \<Rightarrow> bool" where
  "minmax_fails s env p \<longleftrightarrow>
     \<not> is_projection_part p \<and> format_version p \<ge> MIN_FORMAT_VERSION_WITH_CUSTOM_PARTITIONING env
     \<and> \<not> minmax_initialized p \<and> rows_count s \<noteq> 0"

definition non_projection_writes ::
  "stream \<Rightarrow> collaborators \<Rightarrow> data_part \<Rightarrow> (name \<times> content) list" where
  "non_projection_writes s env p =
     (if uuid p \<noteq> Nil_uuid then [(UUID_FILE_NAME, UUIDText (uuid p))] else [])
     @ (if format_version p \<ge> MIN_FORMAT_VERSION_WITH_CUSTOM_PARTITIONING env
        then (case partition p of None \<Rightarrow> [] | Some v \<Rightarrow> [(''partition.dat'', PartitionBinary v)])
             @ (if minmax_initialized p then minmax_writes (minmax_columns p) @ source_parts_writes p
                else if rows_count s \<noteq> 0 then [] else source_parts_writes p)
        else [])"

definition common_writes ::
  "stream \<Rightarrow> collaborators \<Rightarrow> columns_substreams option \<Rightarrow> data_part \<Rightarrow> (name \<times> content) list" where
  "common_writes s env additional_columns_substreams p =
     [(''count.txt'', IntText (uint (rows_count s)))]
     @ (if \<not> ttl_infos_empty (part_ttl_infos p)
        then [(''ttl.txt'', TTLInfosText (part_ttl_infos p))] else [])
     @ (if part_serialization_infos p \<noteq> []
        then [(SERIALIZATION_FILE_NAME, SerializationJSON (part_serialization_infos p))] else [])
     @ [(''columns.txt'', ColumnsText (part_columns p))]
     @ (let substreams = substreams_merge env (getColumnsSubstreams (writer s))
                           (case additional_columns_substreams of Some a \<Rightarrow> a | None \<Rightarrow> [])
                           (map fst (part_columns p))
        in if substreams \<noteq> [] then [(COLUMNS_SUBSTREAMS_FILE_NAME, SubstreamsText substreams)]
           else [])
     @ [(METADATA_VERSION_FILE_NAME, IntText (metadata_version p))]"

definition disk_writes ::
  "stream \<Rightarrow> collaborators \<Rightarrow> columns_substreams option \<Rightarrow> data_part \<Rightarrow> (name \<times> content) list" where
  "disk_writes s env a p =
     (if \<not> is_projection_part p then non_projection_writes s env p else [])
     @ (if minmax_fails s env p then []
        else common_writes s env a p
             @ (case default_codec s of
                  Some codec \<Rightarrow> [(DEFAULT_COMPRESSION_CODEC_FILE_NAME, CodecText codec)]
                | None \<Rightarrow> []))"

text \<open>The two exceptions of \<^verbatim>\<open>finalizePartOnDisk\<close>.\<close>

definition minmax_exn :: "data_part \<Rightarrow> exn" where
  "minmax_exn p = Exception LOGICAL_ERROR
     (''MinMax index was not initialized for new non-empty part '' @ part_name p)"

definition codec_exn :: "data_part \<Rightarrow> exn" where
  "codec_exn p = Exception LOGICAL_ERROR
     (''Compression codec have to be specified for part on disk, empty for '' @ part_name p)"

text \<open>
  \<^verbatim>\<open>finalizePart\<close> as it is described: \<^verbatim>\<open>finalizePartAsync\<close> with the same arguments,
  and \<^verbatim>\<open>finish\<close> on the handle it returns.
\<close>

definition finalizePartAsync_then_finish ::
  "stream \<Rightarrow> collaborators \<Rightarrow> bool \<Rightarrow> columns_list option \<Rightarrow> checksums option
     \<Rightarrow> columns_substreams option \<Rightarrow> world \<Rightarrow> (exn + unit) \<times> world" where
  "finalizePartAsync_then_finish s env sy total_columns_list additional_column_checksums
       additional_columns_substreams w =
     (case finalizePartAsync s env sy total_columns_list additional_column_checksums
             additional_columns_substreams w of
        (Inl e, w1) \<Rightarrow> (Inl e, w1)
      | (Inr h, w1) \<Rightarrow> (Inr (), snd (Finalizer_finish h w1)))"

text \<open>The entry of a file records the size and the hash of this content.\<close>

definition hashed_as :: "collaborators \<Rightarrow> content \<Rightarrow> checksums \<Rightarrow> name \<Rightarrow> bool" where
  "hashed_as env c cs n =
     (case cs n of
        None \<Rightarrow> False
      | Some e \<Rightarrow> file_size e = hash_count env c \<and> file_hash e = hash_value env c)"

text \<open>
  The serializer calls of a sequence of writes: one for each batch that has rows.
\<close>

definition serializer_calls :: "(block \<times> permutation option) list \<Rightarrow> event list" where
  "serializer_calls batches =
     map (\<lambda>bp. WriterWrite (fst bp) (snd bp)) (filter (\<lambda>bp. rows (fst bp) \<noteq> 0) batches)"





text \<open>The keys under which the infos hold an entry of a kind.\<close>

definition ttl_keys :: "ttl_infos \<Rightarrow> TTLUpdateField \<Rightarrow> name set" where
  "ttl_keys infos field =
     (case field of
        TABLE_TTL \<Rightarrow> {}
      | ROWS_WHERE_TTL \<Rightarrow> dom (rows_where_ttl infos)
      | GROUP_BY_TTL \<Rightarrow> dom (group_by_ttl infos)
      | COLUMNS_TTL \<Rightarrow> dom (columns_ttl infos)
      | MOVES_TTL \<Rightarrow> dom (moves_ttl infos)
      | RECOMPRESSION_TTL \<Rightarrow> dom (recompression_ttl infos))"


section \<open>Sample values\<close>

text \<open>A small part, stream and set of collaborators, on which the model is evaluated.\<close>

definition sample_part :: data_part where
  "sample_part =
     \<lparr>part_name = ''all_1_1_0'', is_projection_part = False, uuid = 0, format_version = 1,
      partition = Some ''202611'', minmax_initialized = True, minmax_columns = [''d''],
      source_parts_set = [], part_ttl_infos = empty_ttl_infos, part_serialization_infos = [],
      part_columns = [(''d'', ''Date''), (''x'', ''UInt64'')], part_columns_substreams = [],
      metadata_version = 0, projection_parts = [], rows_count_of_part = 0,
      modification_time = 0, part_checksums = Map.empty, bytes_on_disk = 0,
      bytes_uncompressed_on_disk = 0, part_index_granularity = [], part_index = None,
      existing_rows_count = None, part_default_codec = None,
      enable_index_granularity_compression = False\<rparr>"

definition sample_world :: world where
  "sample_world = \<lparr>events = [], part = sample_part\<rparr>"

definition sample_env :: collaborators where
  "sample_env =
     \<lparr>hash_count = (\<lambda>c. 1), hash_value = (\<lambda>c. 7),
      serialization_add = (\<lambda>infos b. infos), replaceData = (\<lambda>infos new_infos. new_infos),
      removeEmptyColumnsFromPart = (\<lambda>p cols infos cs. ([], cols, infos, cs)),
      substreams_merge = (\<lambda>own additional names. []),
      getTotalSizeOnDisk = (\<lambda>cs. 0), getTotalSizeUncompressedOnDisk = (\<lambda>cs. 0),
      getTotalChecksumUInt128 = (\<lambda>cs. 0), optimize = (\<lambda>g. None), time_now = 0,
      MIN_FORMAT_VERSION_WITH_CUSTOM_PARTITIONING = 1\<rparr>"

definition sample_stream :: stream where
  "sample_stream =
     \<lparr>columns_list = [(''d'', ''Date''), (''x'', ''UInt64'')], default_codec = Some ''LZ4'',
      reset_columns = False, rows_count = 0, new_serialization_infos = [],
      snapshot_metadata_version = 0,
      writer = \<lparr>fillChecksums = (\<lambda>cs. (cs, [])), getIndexGranularity = [],
                releaseIndexColumns = None, getColumnsSubstreams = []\<rparr>\<rparr>"

definition sample_impl :: Impl where
  "sample_impl =
     \<lparr>files_to_remove_after_finish = [''x.bin''], written_files = [''count.txt''], sync = True\<rparr>"





section \<open>Properties of the traces\<close>

lemma events_emit: "events (emit es w) = events w @ es"
  by (simp add: emit_def)

lemma part_emit: "part (emit es w) = part w"
  by (simp add: emit_def)

lemma events_finalize_files:
  "events (finalize_files sy fs w) = events w @ concat (map (file_events sy) fs)"
  by (induction fs arbitrary: w) (simp_all add: events_emit Let_def file_events_def)

lemma part_finalize_files: "part (finalize_files sy fs w) = part w"
  by (induction fs arbitrary: w) (simp_all add: part_emit Let_def)

lemma events_remove_files: "events (remove_files fs w) = events w @ map RemoveFile fs"
  by (induction fs arbitrary: w) (simp_all add: events_emit)

lemma part_remove_files: "part (remove_files fs w) = part w"
  by (induction fs arbitrary: w) (simp_all add: part_emit)

lemma events_cancel_files: "events (cancel_files fs w) = events w @ map FileCancel fs"
  by (induction fs arbitrary: w) (simp_all add: events_emit)

lemma part_cancel_files: "part (cancel_files fs w) = part w"
  by (induction fs arbitrary: w) (simp_all add: part_emit)

lemma events_Impl_cancel:
  "events (Impl_cancel i w) = events w @ WriterCancel # map FileCancel (written_files i)"
  by (simp add: Impl_cancel_def events_cancel_files events_emit)

lemma part_Impl_cancel: "part (Impl_cancel i w) = part w"
  by (simp add: Impl_cancel_def part_cancel_files part_emit)

lemma events_Impl_finish:
  "events (Impl_finish i w) =
     events w @ WriterFinish (sync i) # concat (map (file_events (sync i)) (written_files i))
       @ (if files_to_remove_after_finish i \<noteq> [] then [CommitTransaction, BeginTransaction] else [])
       @ map RemoveFile (files_to_remove_after_finish i)"
  by (simp add: Impl_finish_def Let_def events_remove_files events_finalize_files events_emit)

lemma part_Impl_finish: "part (Impl_finish i w) = part w"
  by (simp add: Impl_finish_def Let_def part_remove_files part_finalize_files part_emit)

lemma call_handle_null: "impl (fst hw) = None \<Longrightarrow> call_handle c hw = hw"
  by (cases c; cases hw) (simp_all add: Finalizer_finish_def Finalizer_cancel_def)

lemma call_handle_consumes: "impl (fst (call_handle c hw)) = None"
  by (cases c) (simp_all add: Finalizer_finish_def Finalizer_cancel_def Let_def split: option.splits)

lemma calls_null: "impl (fst hw) = None \<Longrightarrow> fold call_handle cs hw = hw"
  by (induction cs) (simp_all add: call_handle_null)

lemma calls_first: "fold call_handle (c # cs) hw = call_handle c hw"
  by (simp add: calls_null call_handle_consumes)

lemma split_at_fresh:
  "x \<notin> set xs \<Longrightarrow> xs @ ys = pre @ x # post \<Longrightarrow> \<exists>r. pre = xs @ r \<and> ys = r @ x # post"
proof (induction xs arbitrary: pre)
  case Nil
  then show ?case by simp
next
  case (Cons a xs)
  then obtain p ps where pre: "pre = p # ps"
    by (cases pre) auto
  with Cons.prems have "xs @ ys = ps @ x # post" and "p = a" and "x \<notin> set xs"
    by auto
  with Cons.IH [of ps] pre show ?case by auto
qed

lemma finish_trace_split:
  assumes "new_events w (Impl_finish i w) = pre @ RemoveFile n # post"
  shows "(\<exists>earlier. pre = WriterFinish (sync i)
                       # concat (map (file_events (sync i)) (written_files i))
                       @ [CommitTransaction, BeginTransaction] @ map RemoveFile earlier)
         \<and> (\<exists>later. post = map RemoveFile later)"
proof -
  let ?W = "WriterFinish (sync i) # concat (map (file_events (sync i)) (written_files i))"
  let ?S = "(if files_to_remove_after_finish i \<noteq> [] then [CommitTransaction, BeginTransaction]
             else [])"
  let ?R = "map RemoveFile (files_to_remove_after_finish i)"
  have new: "new_events w (Impl_finish i w) = (?W @ ?S) @ ?R"
    by (simp add: new_events_def events_Impl_finish)
  have fresh: "RemoveFile n \<notin> set (?W @ ?S)"
    by (auto simp: file_events_def split: if_splits)
  from split_at_fresh [OF fresh] assms new
  obtain r where pre: "pre = (?W @ ?S) @ r" and R: "?R = r @ RemoveFile n # post"
    by metis
  from R have ne: "files_to_remove_after_finish i \<noteq> []"
    by auto
  from R obtain earlier later where "r = map RemoveFile earlier" and "post = map RemoveFile later"
    by (auto simp: map_eq_append_conv map_eq_Cons_conv)
  with pre ne show ?thesis
    by auto
qed

lemma written_names_append: "written_names (xs @ ys) = written_names xs @ written_names ys"
  by (induction xs rule: written_names.induct) simp_all

lemma written_names_write_event: "written_names (map write_event l) = map fst l"
  by (induction l) (simp_all add: write_event_def)

lemma write_hashed_file_simps:
  "events (out_world (write_hashed_file env n c st)) = events (out_world st) @ [write_event (n, c)]"
  "part (out_world (write_hashed_file env n c st)) = part (out_world st)"
  "out_files (write_hashed_file env n c st) = out_files st @ [n]"
  "k \<noteq> n \<Longrightarrow> out_checksums (write_hashed_file env n c st) k = out_checksums st k"
  "out_checksums (write_hashed_file env n c st) n \<noteq> None"
  by (simp_all add: write_hashed_file_def Let_def events_emit part_emit write_event_def)

lemma write_plain_file_simps:
  "events (out_world (write_plain_file n c st)) = events (out_world st) @ [write_event (n, c)]"
  "part (out_world (write_plain_file n c st)) = part (out_world st)"
  "out_files (write_plain_file n c st) = out_files st @ [n]"
  "out_checksums (write_plain_file n c st) = out_checksums st"
  by (simp_all add: write_plain_file_def events_emit part_emit write_event_def)

lemma partition_store_simps:
  "events (out_world (partition_store env st)) = events (out_world st)
     @ map write_event (case partition (part (out_world st)) of None \<Rightarrow> []
               | Some v \<Rightarrow> [(''partition.dat'', PartitionBinary v)])"
  "part (out_world (partition_store env st)) = part (out_world st)"
  "out_files (partition_store env st) = out_files st
     @ map fst (case partition (part (out_world st)) of None \<Rightarrow> []
               | Some v \<Rightarrow> [(''partition.dat'', PartitionBinary v)])"
  "k \<noteq> ''partition.dat'' \<Longrightarrow> out_checksums (partition_store env st) k = out_checksums st k"
  by (simp_all add: partition_store_def write_hashed_file_simps split: option.splits)

lemma minmax_store_simps:
  "events (out_world (minmax_store env cols st)) = events (out_world st) @ map write_event (minmax_writes cols)"
  "part (out_world (minmax_store env cols st)) = part (out_world st)"
  "out_files (minmax_store env cols st) = out_files st @ map fst (minmax_writes cols)"
  by (induction cols arbitrary: st) (simp_all add: write_hashed_file_simps minmax_writes_def)

lemma minmax_store_checksums_other:
  "k \<notin> minmax_file_name ` set cols \<Longrightarrow> out_checksums (minmax_store env cols st) k = out_checksums st k"
  by (induction cols arbitrary: st) (auto simp: write_hashed_file_simps)

lemma minmax_store_checksums_txt:
  "out_checksums (minmax_store env cols st) ''checksums.txt'' = out_checksums st ''checksums.txt''"
  by (rule minmax_store_checksums_other) (auto simp: minmax_file_name_def)

lemma write_non_projection_files_result:
  "fst (write_non_projection_files s env st) =
     (if format_version (part (out_world st)) \<ge> MIN_FORMAT_VERSION_WITH_CUSTOM_PARTITIONING env
         \<and> \<not> minmax_initialized (part (out_world st)) \<and> rows_count s \<noteq> 0
      then Inl (minmax_exn (part (out_world st))) else Inr ())"
  by (simp add: write_non_projection_files_def Let_def minmax_exn_def)

lemma write_non_projection_files_part:
  "part (out_world (snd (write_non_projection_files s env st))) = part (out_world st)"
  by (simp add: write_non_projection_files_def Let_def write_hashed_file_simps
        partition_store_simps minmax_store_simps)

lemma write_non_projection_files_events:
  "events (out_world (snd (write_non_projection_files s env st))) =
     events (out_world st) @ map write_event (non_projection_writes s env (part (out_world st)))"
  by (simp add: write_non_projection_files_def Let_def write_hashed_file_simps
        partition_store_simps minmax_store_simps non_projection_writes_def source_parts_writes_def
      split: option.splits)

lemma write_non_projection_files_files:
  "out_files (snd (write_non_projection_files s env st)) =
     out_files st @ map fst (non_projection_writes s env (part (out_world st)))"
  by (simp add: write_non_projection_files_def Let_def write_hashed_file_simps
        partition_store_simps minmax_store_simps non_projection_writes_def source_parts_writes_def
      split: option.splits)

lemma write_non_projection_files_checksums_txt:
  "out_checksums (snd (write_non_projection_files s env st)) ''checksums.txt'' =
     out_checksums st ''checksums.txt''"
  by (simp add: write_non_projection_files_def Let_def write_hashed_file_simps
        partition_store_simps minmax_store_checksums_txt UUID_FILE_NAME_def
        SOURCE_PARTS_SET_FILENAME_def)

lemma write_common_files_events:
  "events (out_world (write_common_files s env a st)) =
     events (out_world st) @ map write_event (common_writes s env a (part (out_world st)))"
  by (simp add: write_common_files_def Let_def write_hashed_file_simps write_plain_file_simps
        common_writes_def)

lemma write_common_files_files:
  "out_files (write_common_files s env a st) =
     out_files st @ map fst (common_writes s env a (part (out_world st)))"
  by (simp add: write_common_files_def Let_def write_hashed_file_simps write_plain_file_simps
        common_writes_def)

lemma write_common_files_part_name:
  "part_name (part (out_world (write_common_files s env a st))) = part_name (part (out_world st))"
  by (simp add: write_common_files_def Let_def write_hashed_file_simps write_plain_file_simps)

lemma write_common_files_checksums_txt:
  "out_checksums (write_common_files s env a st) ''checksums.txt'' =
     out_checksums st ''checksums.txt''"
  by (simp add: write_common_files_def Let_def write_hashed_file_simps write_plain_file_simps
        SERIALIZATION_FILE_NAME_def)

lemma finalizePartOnDisk_result:
  "fst (finalizePartOnDisk s env a cs w) =
     (if minmax_fails s env (part w) then Inl (minmax_exn (part w))
      else case default_codec s of
             None \<Rightarrow> Inl (codec_exn (part w))
           | Some codec \<Rightarrow> Inr (map fst (disk_writes s env a (part w)) @ [''checksums.txt'']))"
  by (simp add: finalizePartOnDisk_def Let_def write_non_projection_files_result minmax_fails_def
        disk_writes_def write_common_files_files write_plain_file_simps
        write_non_projection_files_files write_non_projection_files_part
        write_common_files_part_name codec_exn_def
      split: option.splits)

lemma finalizePartOnDisk_events:
  "events (snd (snd (finalizePartOnDisk s env a cs w))) =
     events w @ map write_event (disk_writes s env a (part w))
       @ (case fst (finalizePartOnDisk s env a cs w) of
            Inl e \<Rightarrow> []
          | Inr files \<Rightarrow>
              [WriteFile ''checksums.txt'' (ChecksumsText (fst (snd (finalizePartOnDisk s env a cs w))))])"
  by (simp add: finalizePartOnDisk_def Let_def write_non_projection_files_result minmax_fails_def
        disk_writes_def write_common_files_events write_plain_file_simps
        write_non_projection_files_events write_non_projection_files_part write_event_def
      split: option.splits)

lemma finalizePartOnDisk_checksums_txt:
  "fst (snd (finalizePartOnDisk s env a cs w)) ''checksums.txt'' = cs ''checksums.txt''"
  by (simp add: finalizePartOnDisk_def Let_def write_non_projection_files_result
        write_common_files_checksums_txt write_plain_file_simps
        write_non_projection_files_checksums_txt
      split: option.splits)

lemma ttl_entry_empty: "ttl_entry empty_ttl_infos field key = None"
  by (cases field) (simp_all add: ttl_entry_def empty_ttl_infos_def at_key_def)

lemma ttl_entry_store:
  "ttl_entry (store_ttl_info a infos) field key =
     (if same_rule field key a then new_ttl_info a else ttl_entry infos field key)"
  by (cases field; cases "ttl_update_field a")
     (simp_all add: ttl_entry_def store_ttl_info_def same_rule_def at_key_def)

lemma part_ttl_infos_fold:
  "part_ttl_infos (fold algorithm_finalize algs p) = fold store_ttl_info algs (part_ttl_infos p)"
  by (induction algs arbitrary: p) (simp_all add: algorithm_finalize_def)

lemma ttl_entry_fold:
  "ttl_entry (fold store_ttl_info algs infos) field key =
     (case filter (same_rule field key) (rev algs) of
        [] \<Rightarrow> ttl_entry infos field key
      | a # _ \<Rightarrow> new_ttl_info a)"
proof (induction algs arbitrary: infos)
  case Nil
  then show ?case by simp
next
  case (Cons a algs)
  show ?case
    by (simp add: Cons.IH ttl_entry_store split: list.splits)
qed

lemma new_events_append: "events w' = events w @ es \<Longrightarrow> new_events w w' = es"
  by (simp add: new_events_def)

lemma Finalizer_destroy_null: "impl h = None \<Longrightarrow> Finalizer_destroy h w = w"
  by (simp add: Finalizer_destroy_def)

lemma Finalizer_destroy_live: "impl h = Some i \<Longrightarrow> Finalizer_destroy h w = Impl_cancel i w"
  by (simp add: Finalizer_destroy_def Finalizer_cancel_def)

lemma finalizePartOnDisk_written:
  assumes "fst (finalizePartOnDisk s env a cs w) = Inr files"
  shows "written_names (new_events w (snd (snd (finalizePartOnDisk s env a cs w)))) = files"
proof -
  have r: "\<not> minmax_fails s env (part w)"
    using assms by (auto simp: finalizePartOnDisk_result)
  then obtain codec where c: "default_codec s = Some codec"
    using assms by (cases "default_codec s") (auto simp: finalizePartOnDisk_result)
  have files: "files = map fst (disk_writes s env a (part w)) @ [''checksums.txt'']"
    using assms r c by (simp add: finalizePartOnDisk_result)
  show ?thesis
    using assms
    by (simp add: new_events_def finalizePartOnDisk_events written_names_append
          written_names_write_event files)
qed

lemma events_prepare_checksums:
  "events (snd (snd (prepare_checksums s env t acc w))) = events w @ [WriterFillChecksums]"
  by (simp add: prepare_checksums_def Let_def events_emit)

lemma finalizePartAsync_handle:
  assumes "finalizePartAsync s env sy t acc a w = (Inr h, w1)"
  shows "\<exists>i. impl h = Some i \<and> sync i = sy
           \<and> written_files i = written_names (new_events w w1)"
proof -
  let ?p = "prepare_checksums s env t acc w"
  let ?d = "finalizePartOnDisk s env a (fst (snd ?p)) (snd (snd ?p))"
  from assms obtain files where files: "fst ?d = Inr files"
    by (cases "fst ?d") (auto simp: finalizePartAsync_def Let_def)
  with assms have h: "h = \<lparr>impl = Some \<lparr>files_to_remove_after_finish = fst ?p,
                                       written_files = files, sync = sy\<rparr>\<rparr>"
    and w1: "events w1 = events (snd (snd ?d))"
    by (auto simp: finalizePartAsync_def Let_def)
  have "written_names (new_events (snd (snd ?p)) (snd (snd ?d))) = files"
    using files by (rule finalizePartOnDisk_written)
  moreover have "new_events w w1 = WriterFillChecksums # new_events (snd (snd ?p)) (snd (snd ?d))"
    using files
    by (simp add: new_events_def w1 finalizePartOnDisk_events events_prepare_checksums)
  ultimately show ?thesis using h by simp
qed

section \<open>The commit handle is consumed once\<close>

text \<open>
  Claim C1. A handle returned by \<^verbatim>\<open>finalizePartAsync\<close> holds an \<^verbatim>\<open>Impl\<close> whose pending
  files are the files written during the finalization. In any sequence of \<^verbatim>\<open>finish\<close>
  and \<^verbatim>\<open>cancel\<close> calls on it only the first one acts: it leaves the handle null, the
  later calls change nothing, and destroying the handle afterwards changes nothing. A
  handle destroyed with no call made runs \<^verbatim>\<open>cancel\<close>: the writer is cancelled and each
  pending file is cancelled, nothing is finalized, synced, committed or removed, and the
  part is untouched.
\<close>

theorem finalizer_consumed_once:
  assumes "finalizePartAsync s env sy total_columns_list additional_column_checksums
             additional_columns_substreams w = (Inr h, w1)"
  shows "\<exists>i. impl h = Some i
           \<and> written_files i = written_names (new_events w w1)
           \<and> (\<forall>c cs w2.
                 fold call_handle (c # cs) (h, w2) = call_handle c (h, w2)
                 \<and> impl (fst (call_handle c (h, w2))) = None
                 \<and> (\<forall>w3. Finalizer_destroy (fst (call_handle c (h, w2))) w3 = w3))
           \<and> (\<forall>w2. snd (Finalizer_finish h w2) = Impl_finish i w2
                 \<and> snd (Finalizer_cancel h w2) = Impl_cancel i w2
                 \<and> Finalizer_destroy h w2 = snd (Finalizer_cancel h w2)
                 \<and> new_events w2 (Finalizer_destroy h w2)
                     = WriterCancel # map FileCancel (written_files i)
                 \<and> part (Finalizer_destroy h w2) = part w2)"
proof -
  from finalizePartAsync_handle [OF assms] obtain i
    where i: "impl h = Some i" and files: "written_files i = written_names (new_events w w1)"
    by blast
  have calls: "fold call_handle (c # cs) (h, w2) = call_handle c (h, w2)
      \<and> impl (fst (call_handle c (h, w2))) = None
      \<and> (\<forall>w3. Finalizer_destroy (fst (call_handle c (h, w2))) w3 = w3)" for c cs w2
    using calls_first [of c cs "(h, w2)"] call_handle_consumes [of c "(h, w2)"]
    by (simp add: Finalizer_destroy_null)
  have live: "snd (Finalizer_finish h w2) = Impl_finish i w2
      \<and> snd (Finalizer_cancel h w2) = Impl_cancel i w2
      \<and> Finalizer_destroy h w2 = snd (Finalizer_cancel h w2)
      \<and> new_events w2 (Finalizer_destroy h w2) = WriterCancel # map FileCancel (written_files i)
      \<and> part (Finalizer_destroy h w2) = part w2" for w2
    using i
    by (simp add: Finalizer_finish_def Finalizer_cancel_def Finalizer_destroy_live
          new_events_def events_Impl_cancel part_Impl_cancel)
  from i files calls live show ?thesis by blast
qed

lemma sample_finalizePartOnDisk:
  "fst (finalizePartOnDisk sample_stream sample_env None Map.empty
          (emit [WriterFillChecksums] sample_world)) =
     Inr [''partition.dat'', ''minmax_d.idx'', ''count.txt'', ''columns.txt'',
          ''metadata_version.txt'', ''default_compression_codec.txt'', ''checksums.txt'']"
  by (simp add: finalizePartOnDisk_result minmax_fails_def disk_writes_def
        non_projection_writes_def common_writes_def minmax_writes_def source_parts_writes_def
        sample_stream_def sample_env_def sample_world_def sample_part_def part_emit
        Nil_uuid_def minmax_file_name_def ttl_infos_empty_def
        METADATA_VERSION_FILE_NAME_def DEFAULT_COMPRESSION_CODEC_FILE_NAME_def)

lemma sample_prepare_checksums:
  "prepare_checksums sample_stream sample_env None None sample_world =
     ([], Map.empty, emit [WriterFillChecksums] sample_world)"
  by (simp add: prepare_checksums_def Let_def sample_stream_def sample_world_def
        sample_part_def emit_def)

theorem finalizer_consumed_once_witness:
  "fst (finalizePartAsync sample_stream sample_env True None None None sample_world) =
     Inr \<lparr>impl = Some \<lparr>files_to_remove_after_finish = [],
            written_files = [''partition.dat'', ''minmax_d.idx'', ''count.txt'', ''columns.txt'',
              ''metadata_version.txt'', ''default_compression_codec.txt'', ''checksums.txt''],
            sync = True\<rparr>\<rparr>
   \<and> fold call_handle [Finish, Cancel, Finish]
         (\<lparr>impl = Some \<lparr>files_to_remove_after_finish = [],
            written_files = [''partition.dat'', ''minmax_d.idx'', ''count.txt'', ''columns.txt'',
              ''metadata_version.txt'', ''default_compression_codec.txt'', ''checksums.txt''],
            sync = True\<rparr>\<rparr>, sample_world)
       = call_handle Finish
         (\<lparr>impl = Some \<lparr>files_to_remove_after_finish = [],
            written_files = [''partition.dat'', ''minmax_d.idx'', ''count.txt'', ''columns.txt'',
              ''metadata_version.txt'', ''default_compression_codec.txt'', ''checksums.txt''],
            sync = True\<rparr>\<rparr>, sample_world)
   \<and> new_events sample_world
         (Finalizer_destroy
            \<lparr>impl = Some \<lparr>files_to_remove_after_finish = [],
               written_files = [''partition.dat'', ''minmax_d.idx'', ''count.txt'', ''columns.txt'',
                 ''metadata_version.txt'', ''default_compression_codec.txt'', ''checksums.txt''],
               sync = True\<rparr>\<rparr> sample_world)
       = [WriterCancel, FileCancel ''partition.dat'', FileCancel ''minmax_d.idx'',
          FileCancel ''count.txt'', FileCancel ''columns.txt'',
          FileCancel ''metadata_version.txt'', FileCancel ''default_compression_codec.txt'',
          FileCancel ''checksums.txt'']"
proof -
  let ?i = "\<lparr>files_to_remove_after_finish = [],
            written_files = [''partition.dat'', ''minmax_d.idx'', ''count.txt'', ''columns.txt'',
              ''metadata_version.txt'', ''default_compression_codec.txt'', ''checksums.txt''],
            sync = True\<rparr>"
  let ?h = "\<lparr>impl = Some ?i\<rparr>"
  let ?r = "finalizePartAsync sample_stream sample_env True None None None sample_world"
  have r: "fst ?r = Inr ?h"
    by (simp add: finalizePartAsync_def Let_def sample_prepare_checksums
          sample_finalizePartOnDisk)
  then have eq: "?r = (Inr ?h, snd ?r)"
    by (metis prod.collapse)
  from finalizer_consumed_once [OF eq] obtain i where i: "impl ?h = Some i"
    and calls: "\<And>c cs w2. fold call_handle (c # cs) (?h, w2) = call_handle c (?h, w2)"
    and destroy: "\<And>w2. new_events w2 (Finalizer_destroy ?h w2)
                    = WriterCancel # map FileCancel (written_files i)"
    by blast
  from i have "i = ?i" by simp
  with r calls [of Finish "[Cancel, Finish]" sample_world] destroy [of sample_world]
  show ?thesis by simp
qed

section \<open>Properties of the files written at finalization\<close>

lemmas writes_defs = disk_writes_def non_projection_writes_def common_writes_def
  minmax_writes_def source_parts_writes_def

lemmas file_name_defs = UUID_FILE_NAME_def SOURCE_PARTS_SET_FILENAME_def
  SERIALIZATION_FILE_NAME_def COLUMNS_SUBSTREAMS_FILE_NAME_def METADATA_VERSION_FILE_NAME_def
  DEFAULT_COMPRESSION_CODEC_FILE_NAME_def minmax_file_name_def

lemma disk_writes_count:
  "(''count.txt'', c) \<in> set (disk_writes s env a p) \<Longrightarrow> c = IntText (uint (rows_count s))"
  by (auto simp: writes_defs file_name_defs Let_def split: if_splits option.splits)

lemma disk_writes_count_in:
  "\<not> minmax_fails s env p \<Longrightarrow>
     (''count.txt'', IntText (uint (rows_count s))) \<in> set (disk_writes s env a p)"
  by (simp add: disk_writes_def common_writes_def)

lemma disk_writes_no_checksums: "''checksums.txt'' \<notin> fst ` set (disk_writes s env a p)"
  by (auto simp: writes_defs file_name_defs Let_def split: if_splits option.splits)

lemma disk_writes_minmax_content:
  "(n, MinMaxBinary col) \<in> set (disk_writes s env a p) \<Longrightarrow>
     minmax_initialized p \<and> col \<in> set (minmax_columns p) \<and> n = minmax_file_name col"
  by (auto simp: writes_defs Let_def split: if_splits option.splits)

lemma disk_writes_minmax_in:
  "\<not> is_projection_part p \<Longrightarrow>
   format_version p \<ge> MIN_FORMAT_VERSION_WITH_CUSTOM_PARTITIONING env \<Longrightarrow>
   minmax_initialized p \<Longrightarrow> col \<in> set (minmax_columns p) \<Longrightarrow>
     (minmax_file_name col, MinMaxBinary col) \<in> set (disk_writes s env a p)"
  by (simp add: disk_writes_def non_projection_writes_def minmax_writes_def)

lemma disk_writes_codec_in:
  "\<not> minmax_fails s env p \<Longrightarrow> default_codec s = Some codec \<Longrightarrow>
     (DEFAULT_COMPRESSION_CODEC_FILE_NAME, CodecText codec) \<in> set (disk_writes s env a p)"
  by (simp add: disk_writes_def)

lemma write_event_in_set: "WriteFile n c \<in> set (map write_event l) \<longleftrightarrow> (n, c) \<in> set l"
  by (induction l) (auto simp: write_event_def)

lemma new_events_finalizePartOnDisk:
  "new_events w (snd (snd (finalizePartOnDisk s env a cs w))) =
     map write_event (disk_writes s env a (part w))
       @ (case fst (finalizePartOnDisk s env a cs w) of
            Inl e \<Rightarrow> []
          | Inr files \<Rightarrow>
              [WriteFile ''checksums.txt'' (ChecksumsText (fst (snd (finalizePartOnDisk s env a cs w))))])"
  by (simp add: new_events_def finalizePartOnDisk_events)

lemma writeImpl_rows:
  "fst (writeImpl env b perm (s, w)) = Inr () \<Longrightarrow>
     rows_count (fst (snd (writeImpl env b perm (s, w)))) = rows_count s + rows b"
  by (simp add: writeImpl_def Let_def split: sum.splits if_splits)

lemma writeImpl_events:
  "fst (writeImpl env b perm (s, w)) = Inr () \<Longrightarrow>
     events (snd (snd (writeImpl env b perm (s, w)))) =
       events w @ (if rows b \<noteq> 0 then [WriterWrite b perm] else [])"
  by (simp add: writeImpl_def Let_def events_emit split: sum.splits if_splits)

lemma writeImpl_empty:
  "rows b = 0 \<Longrightarrow> snd (writeImpl env b perm (s, w)) = (s, w)"
  by (simp add: writeImpl_def Let_def split: sum.splits)

lemma writeImpl_empty_ok:
  "rows b = 0 \<Longrightarrow> checkNumberOfRows b = Inr () \<Longrightarrow> writeImpl env b perm (s, w) = (Inr (), s, w)"
  by (simp add: writeImpl_def Let_def)

lemma write_all_rows:
  "write_all env batches (s, w) = (Inr (), s', w') \<Longrightarrow>
     rows_count s' = rows_count s + sum_list (map (rows \<circ> fst) batches)
     \<and> events w' = events w @ serializer_calls batches"
proof (induction batches arbitrary: s w)
  case Nil
  then show ?case by (simp add: serializer_calls_def)
next
  case (Cons bp rest)
  let ?r = "writeImpl env (fst bp) (snd bp) (s, w)"
  have step: "(case snd bp of None \<Rightarrow> write_block env (fst bp) (s, w)
               | Some perm \<Rightarrow> writeWithPermutation env (fst bp) perm (s, w)) = ?r"
    by (simp add: write_block_def writeWithPermutation_def split: option.splits)
  from Cons.prems have ok: "fst ?r = Inr ()"
    by (cases "fst ?r") (auto simp: step Let_def)
  with Cons.prems have rest: "write_all env rest (fst (snd ?r), snd (snd ?r)) = (Inr (), s', w')"
    by (simp add: step Let_def)
  from Cons.IH [OF rest] writeImpl_rows [OF ok] writeImpl_events [OF ok]
  show ?case by (simp add: serializer_calls_def add.assoc)
qed

lemma unat_sum_list:
  fixes f :: "'a \<Rightarrow> 64 word"
  shows "sum_list (map (\<lambda>x. unat (f x)) xs) < 2 ^ 64 \<Longrightarrow>
           unat (sum_list (map f xs)) = sum_list (map (\<lambda>x. unat (f x)) xs)"
proof (induction xs)
  case Nil
  then show ?case by simp
next
  case (Cons x xs)
  from Cons.prems have small: "sum_list (map (\<lambda>x. unat (f x)) xs) < 2 ^ 64" by simp
  from Cons.IH [OF small]
  have ih: "unat (sum_list (map f xs)) = sum_list (map (\<lambda>x. unat (f x)) xs)" .
  from Cons.prems ih have "unat (f x) + unat (sum_list (map f xs)) < 2 ^ LENGTH(64)" by simp
  then have "unat (f x + sum_list (map f xs)) = unat (f x) + unat (sum_list (map f xs))"
    by (rule iffD1 [OF unat_add_lem])
  with ih show ?case by simp
qed

lemma emit_emit: "emit es2 (emit es1 w) = emit (es1 @ es2) w"
  by (simp add: emit_def)

lemma sample_stream_simps:
  "rows_count sample_stream = 0"
  "reset_columns sample_stream = False"
  "default_codec sample_stream = Some ''LZ4''"
  by (simp_all add: sample_stream_def)

lemma sample_write_all:
  "write_all sample_env
     [([(''d'', 100), (''x'', 100)], None), ([(''d'', 0), (''x'', 0)], Some []),
      ([(''d'', 50), (''x'', 50)], None)]
     (sample_stream, sample_world) =
   (Inr (), sample_stream\<lparr>rows_count := 150\<rparr>,
    emit [WriterWrite [(''d'', 100), (''x'', 100)] None,
          WriterWrite [(''d'', 50), (''x'', 50)] None] sample_world)"
  by (simp add: write_block_def writeWithPermutation_def writeImpl_def checkNumberOfRows_def
        rows_def Let_def sample_stream_simps emit_emit)

lemma sample_finalizePartOnDisk_rows:
  "fst (finalizePartOnDisk (sample_stream\<lparr>rows_count := n\<rparr>) sample_env None Map.empty
          (emit es sample_world)) =
     Inr [''partition.dat'', ''minmax_d.idx'', ''count.txt'', ''columns.txt'',
          ''metadata_version.txt'', ''default_compression_codec.txt'', ''checksums.txt'']"
  by (simp add: finalizePartOnDisk_result minmax_fails_def disk_writes_def
        non_projection_writes_def common_writes_def minmax_writes_def source_parts_writes_def
        sample_stream_def sample_env_def sample_world_def sample_part_def part_emit
        Nil_uuid_def minmax_file_name_def ttl_infos_empty_def
        METADATA_VERSION_FILE_NAME_def DEFAULT_COMPRESSION_CODEC_FILE_NAME_def)

lemma minmax_file_name_inj: "minmax_file_name a = minmax_file_name b \<longleftrightarrow> a = b"
  by (simp add: minmax_file_name_def)

lemma hashed_as_write_hashed_file:
  "hashed_as env c (out_checksums (write_hashed_file env n c st)) n"
  by (simp add: hashed_as_def write_hashed_file_def Let_def)

lemma hashed_as_minmax_store:
  "col \<in> set cols \<Longrightarrow>
     hashed_as env (MinMaxBinary col) (out_checksums (minmax_store env cols st))
       (minmax_file_name col)"
proof (induction cols arbitrary: st)
  case Nil
  then show ?case by simp
next
  case (Cons a cols)
  show ?case
  proof (cases "col \<in> set cols")
    case True
    then show ?thesis using Cons.IH by simp
  next
    case False
    with Cons.prems have a: "col = a" by simp
    from False have "minmax_file_name col \<notin> minmax_file_name ` set cols"
      by (auto simp: minmax_file_name_inj)
    then have "out_checksums (minmax_store env cols
                 (write_hashed_file env (minmax_file_name a) (MinMaxBinary a) st))
                 (minmax_file_name col)
               = out_checksums (write_hashed_file env (minmax_file_name a) (MinMaxBinary a) st)
                   (minmax_file_name col)"
      by (rule minmax_store_checksums_other)
    then show ?thesis
      using hashed_as_write_hashed_file [of env "MinMaxBinary a" "minmax_file_name a" st] a
      by (simp add: hashed_as_def)
  qed
qed

lemma write_common_files_checksums_other:
  "k \<noteq> ''count.txt'' \<Longrightarrow> k \<noteq> ''ttl.txt'' \<Longrightarrow> k \<noteq> SERIALIZATION_FILE_NAME \<Longrightarrow>
     out_checksums (write_common_files s env a st) k = out_checksums st k"
  by (simp add: write_common_files_def Let_def write_hashed_file_simps write_plain_file_simps)

lemma finalizePartOnDisk_checksums_minmax:
  assumes "\<not> is_projection_part (part w)"
    and "format_version (part w) \<ge> MIN_FORMAT_VERSION_WITH_CUSTOM_PARTITIONING env"
    and "minmax_initialized (part w)"
    and "col \<in> set (minmax_columns (part w))"
  shows "hashed_as env (MinMaxBinary col) (fst (snd (finalizePartOnDisk s env a cs w)))
           (minmax_file_name col)"
proof -
  let ?st0 = "\<lparr>out_world = w, out_checksums = cs, out_files = []\<rparr>"
  let ?k = "minmax_file_name col"
  have names: "?k \<noteq> ''count.txt''" "?k \<noteq> ''ttl.txt''" "?k \<noteq> SERIALIZATION_FILE_NAME"
    "?k \<noteq> SOURCE_PARTS_SET_FILENAME"
    by (simp_all add: minmax_file_name_def SERIALIZATION_FILE_NAME_def
          SOURCE_PARTS_SET_FILENAME_def)
  have head: "hashed_as env (MinMaxBinary col)
                (out_checksums (snd (write_non_projection_files s env ?st0))) ?k"
    using assms names hashed_as_minmax_store [of col "minmax_columns (part w)" env]
    by (simp add: write_non_projection_files_def Let_def write_hashed_file_simps
          partition_store_simps hashed_as_def)
  have "fst (snd (finalizePartOnDisk s env a cs w)) ?k
          = out_checksums (snd (write_non_projection_files s env ?st0)) ?k"
    using assms names
    by (simp add: finalizePartOnDisk_def Let_def write_non_projection_files_result
          write_common_files_checksums_other write_plain_file_simps split: option.splits)
  with head show ?thesis by (simp add: hashed_as_def)
qed

lemma written_names_mem: "WriteFile n c \<in> set es \<Longrightarrow> n \<in> set (written_names es)"
  by (induction es rule: written_names.induct) auto

lemma new_events_on_disk_mem:
  "(n, c) \<in> set (disk_writes s env a (part w)) \<Longrightarrow>
     WriteFile n c \<in> set (new_events w (snd (snd (finalizePartOnDisk s env a cs w))))"
proof -
  assume "(n, c) \<in> set (disk_writes s env a (part w))"
  then have "WriteFile n c \<in> set (map write_event (disk_writes s env a (part w)))"
    by (simp only: write_event_in_set)
  then show ?thesis by (simp add: new_events_finalizePartOnDisk)
qed

lemma new_events_on_disk_cases:
  assumes "WriteFile n c \<in> set (new_events w (snd (snd (finalizePartOnDisk s env a cs w))))"
  shows "(n, c) \<in> set (disk_writes s env a (part w))
         \<or> (n = ''checksums.txt''
             \<and> c = ChecksumsText (fst (snd (finalizePartOnDisk s env a cs w)))
             \<and> (\<exists>files. fst (finalizePartOnDisk s env a cs w) = Inr files))"
proof (cases "fst (finalizePartOnDisk s env a cs w)")
  case (Inl e)
  with assms have "WriteFile n c \<in> set (map write_event (disk_writes s env a (part w)))"
    by (simp add: new_events_finalizePartOnDisk)
  then have "(n, c) \<in> set (disk_writes s env a (part w))"
    by (simp only: write_event_in_set)
  then show ?thesis by blast
next
  case (Inr files)
  with assms have "WriteFile n c \<in> set (map write_event (disk_writes s env a (part w)))
      \<or> WriteFile n c = WriteFile ''checksums.txt''
           (ChecksumsText (fst (snd (finalizePartOnDisk s env a cs w))))"
    by (auto simp: new_events_finalizePartOnDisk)
  then have "(n, c) \<in> set (disk_writes s env a (part w))
      \<or> (n = ''checksums.txt''
          \<and> c = ChecksumsText (fst (snd (finalizePartOnDisk s env a cs w))))"
    by (simp only: write_event_in_set event.inject)
  then show ?thesis using Inr by blast
qed

section \<open>The min-max index at finalization\<close>

text \<open>
  Claim C3, as the code has it. With a row count of zero and a min-max index that was
  never initialized, \<^verbatim>\<open>finalizePartOnDisk\<close> does not throw for the index: the check of
  line 325 is on the row count. It writes no min-max file, and it succeeds when a codec
  was given (the only exception left is the one for a missing codec).
\<close>

theorem zero_rows_uninitialized_minmax_accepted:
  assumes "rows_count s = 0" and "\<not> minmax_initialized (part w)"
  shows "fst (finalizePartOnDisk s env a cs w) =
           (case default_codec s of
              None \<Rightarrow> Inl (codec_exn (part w))
            | Some codec \<Rightarrow> Inr (map fst (disk_writes s env a (part w)) @ [''checksums.txt'']))
     \<and> (\<forall>n col. WriteFile n (MinMaxBinary col)
            \<notin> set (new_events w (snd (snd (finalizePartOnDisk s env a cs w)))))"
proof -
  from assms have nf: "\<not> minmax_fails s env (part w)"
    by (simp add: minmax_fails_def)
  then have res: "fst (finalizePartOnDisk s env a cs w) =
           (case default_codec s of
              None \<Rightarrow> Inl (codec_exn (part w))
            | Some codec \<Rightarrow> Inr (map fst (disk_writes s env a (part w)) @ [''checksums.txt'']))"
    by (simp add: finalizePartOnDisk_result)
  have none: "WriteFile n (MinMaxBinary col)
            \<notin> set (new_events w (snd (snd (finalizePartOnDisk s env a cs w))))" for n col
  proof
    assume "WriteFile n (MinMaxBinary col)
            \<in> set (new_events w (snd (snd (finalizePartOnDisk s env a cs w))))"
    from new_events_on_disk_cases [OF this]
    have "(n, MinMaxBinary col) \<in> set (disk_writes s env a (part w))" by auto
    from disk_writes_minmax_content [OF this] assms(2) show False by simp
  qed
  from res none show ?thesis by blast
qed

theorem zero_rows_uninitialized_minmax_counterexample:
  "rows_count sample_stream = 0
   \<and> \<not> minmax_initialized (sample_part\<lparr>minmax_initialized := False\<rparr>)
   \<and> \<not> is_projection_part (sample_part\<lparr>minmax_initialized := False\<rparr>)
   \<and> format_version (sample_part\<lparr>minmax_initialized := False\<rparr>)
        \<ge> MIN_FORMAT_VERSION_WITH_CUSTOM_PARTITIONING sample_env
   \<and> fst (finalizePartOnDisk sample_stream sample_env None Map.empty
            \<lparr>events = [], part = sample_part\<lparr>minmax_initialized := False\<rparr>\<rparr>) =
       Inr [''partition.dat'', ''count.txt'', ''columns.txt'', ''metadata_version.txt'',
            ''default_compression_codec.txt'', ''checksums.txt'']"
  by (simp add: finalizePartOnDisk_result minmax_fails_def disk_writes_def
        non_projection_writes_def common_writes_def minmax_writes_def source_parts_writes_def
        sample_stream_def sample_env_def sample_part_def
        Nil_uuid_def minmax_file_name_def ttl_infos_empty_def
        METADATA_VERSION_FILE_NAME_def DEFAULT_COMPRESSION_CODEC_FILE_NAME_def)

theorem zero_rows_uninitialized_minmax_accepted_witness:
  "rows_count sample_stream = 0
   \<and> \<not> minmax_initialized (part \<lparr>events = [], part = sample_part\<lparr>minmax_initialized := False\<rparr>\<rparr>)
   \<and> WriteFile ''minmax_d.idx'' (MinMaxBinary ''d'')
        \<notin> set (new_events \<lparr>events = [], part = sample_part\<lparr>minmax_initialized := False\<rparr>\<rparr>
                 (snd (snd (finalizePartOnDisk sample_stream sample_env None Map.empty
                    \<lparr>events = [], part = sample_part\<lparr>minmax_initialized := False\<rparr>\<rparr>))))"
proof -
  have r: "rows_count sample_stream = 0"
    by (simp add: sample_stream_def)
  have m: "\<not> minmax_initialized
              (part \<lparr>events = [], part = sample_part\<lparr>minmax_initialized := False\<rparr>\<rparr>)"
    by simp
  from zero_rows_uninitialized_minmax_accepted [OF r m, of sample_env None Map.empty] r m
  show ?thesis by blast
qed

text \<open>
  Claim C4. For a part that is not a projection, under a format version with custom
  partitioning: with a non-zero row count and a min-max index that was never
  initialized, \<^verbatim>\<open>finalizePartOnDisk\<close> throws the \<^verbatim>\<open>LOGICAL_ERROR\<close> of line 327; with an
  initialized index, the file of each of its columns is written, is among the written
  files of a finalization that succeeds, and has a checksum entry with the size and the
  hash of what was written.
\<close>

theorem minmax_index_checked_and_stored:
  assumes "\<not> is_projection_part (part w)"
    and "format_version (part w) \<ge> MIN_FORMAT_VERSION_WITH_CUSTOM_PARTITIONING env"
  shows "(rows_count s \<noteq> 0 \<and> \<not> minmax_initialized (part w) \<longrightarrow>
            fst (finalizePartOnDisk s env a cs w) =
              Inl (Exception LOGICAL_ERROR
                     (''MinMax index was not initialized for new non-empty part ''
                        @ part_name (part w))))
     \<and> (minmax_initialized (part w) \<longrightarrow>
          (\<forall>col \<in> set (minmax_columns (part w)).
             WriteFile (minmax_file_name col) (MinMaxBinary col)
               \<in> set (new_events w (snd (snd (finalizePartOnDisk s env a cs w))))
             \<and> hashed_as env (MinMaxBinary col) (fst (snd (finalizePartOnDisk s env a cs w)))
                 (minmax_file_name col)
             \<and> (\<forall>files. fst (finalizePartOnDisk s env a cs w) = Inr files
                   \<longrightarrow> minmax_file_name col \<in> set files)))"
proof -
  have fails: "fst (finalizePartOnDisk s env a cs w) =
              Inl (Exception LOGICAL_ERROR
                     (''MinMax index was not initialized for new non-empty part ''
                        @ part_name (part w)))"
    if "rows_count s \<noteq> 0" and "\<not> minmax_initialized (part w)"
    using that assms by (simp add: finalizePartOnDisk_result minmax_fails_def minmax_exn_def)
  have stored: "WriteFile (minmax_file_name col) (MinMaxBinary col)
               \<in> set (new_events w (snd (snd (finalizePartOnDisk s env a cs w))))
             \<and> hashed_as env (MinMaxBinary col) (fst (snd (finalizePartOnDisk s env a cs w)))
                 (minmax_file_name col)
             \<and> (\<forall>files. fst (finalizePartOnDisk s env a cs w) = Inr files
                   \<longrightarrow> minmax_file_name col \<in> set files)"
    if init: "minmax_initialized (part w)" and col: "col \<in> set (minmax_columns (part w))" for col
  proof -
    have w: "WriteFile (minmax_file_name col) (MinMaxBinary col)
               \<in> set (new_events w (snd (snd (finalizePartOnDisk s env a cs w))))"
      using disk_writes_minmax_in [OF assms init col] by (rule new_events_on_disk_mem)
    have h: "hashed_as env (MinMaxBinary col) (fst (snd (finalizePartOnDisk s env a cs w)))
                 (minmax_file_name col)"
      using assms init col by (rule finalizePartOnDisk_checksums_minmax)
    have f: "minmax_file_name col \<in> set files"
      if ok: "fst (finalizePartOnDisk s env a cs w) = Inr files" for files
      using finalizePartOnDisk_written [OF ok] written_names_mem [OF w] by simp
    from w h f show ?thesis by blast
  qed
  from fails stored show ?thesis by blast
qed

theorem minmax_index_checked_and_stored_witness:
  "\<not> is_projection_part (part sample_world)
   \<and> format_version (part sample_world) \<ge> MIN_FORMAT_VERSION_WITH_CUSTOM_PARTITIONING sample_env
   \<and> minmax_initialized (part sample_world)
   \<and> ''d'' \<in> set (minmax_columns (part sample_world))
   \<and> WriteFile ''minmax_d.idx'' (MinMaxBinary ''d'')
       \<in> set (new_events sample_world
                (snd (snd (finalizePartOnDisk sample_stream sample_env None Map.empty sample_world))))
   \<and> hashed_as sample_env (MinMaxBinary ''d'')
        (fst (snd (finalizePartOnDisk sample_stream sample_env None Map.empty sample_world)))
        ''minmax_d.idx''
   \<and> rows_count (sample_stream\<lparr>rows_count := 5\<rparr>) \<noteq> 0
   \<and> \<not> minmax_initialized (part (sample_world\<lparr>part := sample_part\<lparr>minmax_initialized := False\<rparr>\<rparr>))
   \<and> fst (finalizePartOnDisk (sample_stream\<lparr>rows_count := 5\<rparr>) sample_env None Map.empty
            (sample_world\<lparr>part := sample_part\<lparr>minmax_initialized := False\<rparr>\<rparr>)) =
       Inl (Exception LOGICAL_ERROR
              ''MinMax index was not initialized for new non-empty part all_1_1_0'')"
proof -
  have p: "\<not> is_projection_part (part sample_world)"
    "format_version (part sample_world) \<ge> MIN_FORMAT_VERSION_WITH_CUSTOM_PARTITIONING sample_env"
    "minmax_initialized (part sample_world)"
    "''d'' \<in> set (minmax_columns (part sample_world))"
    by (simp_all add: sample_world_def sample_part_def sample_env_def)
  let ?w = "sample_world\<lparr>part := sample_part\<lparr>minmax_initialized := False\<rparr>\<rparr>"
  have q: "\<not> is_projection_part (part ?w)"
    "format_version (part ?w) \<ge> MIN_FORMAT_VERSION_WITH_CUSTOM_PARTITIONING sample_env"
    "\<not> minmax_initialized (part ?w)"
    "rows_count (sample_stream\<lparr>rows_count := 5\<rparr>) \<noteq> 0"
    "part_name (part ?w) = ''all_1_1_0''"
    by (simp_all add: sample_world_def sample_part_def sample_env_def)
  have name: "minmax_file_name ''d'' = ''minmax_d.idx''"
    by (simp add: minmax_file_name_def)
  from minmax_index_checked_and_stored [OF p(1,2), of sample_stream None Map.empty] p(3,4)
  have a: "WriteFile (minmax_file_name ''d'') (MinMaxBinary ''d'')
       \<in> set (new_events sample_world
                (snd (snd (finalizePartOnDisk sample_stream sample_env None Map.empty sample_world))))
   \<and> hashed_as sample_env (MinMaxBinary ''d'')
        (fst (snd (finalizePartOnDisk sample_stream sample_env None Map.empty sample_world)))
        (minmax_file_name ''d'')"
    by blast
  from minmax_index_checked_and_stored [OF q(1,2), of "sample_stream\<lparr>rows_count := 5\<rparr>" None Map.empty]
    q(3,4)
  have b: "fst (finalizePartOnDisk (sample_stream\<lparr>rows_count := 5\<rparr>) sample_env None Map.empty ?w) =
       Inl (Exception LOGICAL_ERROR
              (''MinMax index was not initialized for new non-empty part '' @ part_name (part ?w)))"
    by blast
  from a b p q show ?thesis
    by (simp only: name q(5) append.simps) simp
qed

lemma written_names_set: "n \<in> set (written_names es) \<longleftrightarrow> (\<exists>c. WriteFile n c \<in> set es)"
  by (induction es rule: written_names.induct) auto

lemma non_projection_writes_no_codec:
  "DEFAULT_COMPRESSION_CODEC_FILE_NAME \<notin> fst ` set (non_projection_writes s env p)"
  by (auto simp: non_projection_writes_def minmax_writes_def source_parts_writes_def
        file_name_defs split: if_splits option.splits)

section \<open>The codec file\<close>

text \<open>
  Claim C5, as the code has it. Without a codec \<^verbatim>\<open>finalizePartOnDisk\<close> always throws a
  \<^verbatim>\<open>LOGICAL_ERROR\<close> and \<^verbatim>\<open>checksums.txt\<close> is not written. With a codec the codec file is
  written, and the finalization succeeds, unless the min-max check of line 327 has thrown
  before: then the function has ended with that exception and the codec file is not
  written.
\<close>

theorem codec_file_written_unless_minmax_fails:
  "(default_codec s = None \<longrightarrow>
      (\<exists>msg. fst (finalizePartOnDisk s env a cs w) = Inl (Exception LOGICAL_ERROR msg))
      \<and> ''checksums.txt''
          \<notin> set (written_names (new_events w (snd (snd (finalizePartOnDisk s env a cs w))))))
   \<and> (\<forall>codec. default_codec s = Some codec \<and> \<not> minmax_fails s env (part w) \<longrightarrow>
         (\<exists>files. fst (finalizePartOnDisk s env a cs w) = Inr files
            \<and> DEFAULT_COMPRESSION_CODEC_FILE_NAME \<in> set files)
         \<and> WriteFile DEFAULT_COMPRESSION_CODEC_FILE_NAME (CodecText codec)
             \<in> set (new_events w (snd (snd (finalizePartOnDisk s env a cs w)))))
   \<and> (minmax_fails s env (part w) \<longrightarrow>
         fst (finalizePartOnDisk s env a cs w) = Inl (minmax_exn (part w))
         \<and> DEFAULT_COMPRESSION_CODEC_FILE_NAME
             \<notin> set (written_names (new_events w (snd (snd (finalizePartOnDisk s env a cs w))))))"
proof -
  let ?r = "finalizePartOnDisk s env a cs w"
  have no_codec: "(\<exists>msg. fst ?r = Inl (Exception LOGICAL_ERROR msg))
      \<and> ''checksums.txt'' \<notin> set (written_names (new_events w (snd (snd ?r))))"
    if none: "default_codec s = None"
  proof -
    from none have res: "fst ?r = (if minmax_fails s env (part w) then Inl (minmax_exn (part w))
                                   else Inl (codec_exn (part w)))"
      by (simp add: finalizePartOnDisk_result)
    then have thrown: "\<exists>msg. fst ?r = Inl (Exception LOGICAL_ERROR msg)"
      by (simp add: minmax_exn_def codec_exn_def)
    have "''checksums.txt'' \<notin> set (written_names (new_events w (snd (snd ?r))))"
    proof
      assume "''checksums.txt'' \<in> set (written_names (new_events w (snd (snd ?r))))"
      then obtain c where "WriteFile ''checksums.txt'' c \<in> set (new_events w (snd (snd ?r)))"
        by (auto simp: written_names_set)
      from new_events_on_disk_cases [OF this] res
      have "(''checksums.txt'', c) \<in> set (disk_writes s env a (part w))"
        by (auto split: if_splits)
      then show False
        using disk_writes_no_checksums [of s env a "part w"] by force
    qed
    with thrown show ?thesis by blast
  qed
  have with_codec: "(\<exists>files. fst ?r = Inr files \<and> DEFAULT_COMPRESSION_CODEC_FILE_NAME \<in> set files)
         \<and> WriteFile DEFAULT_COMPRESSION_CODEC_FILE_NAME (CodecText codec)
             \<in> set (new_events w (snd (snd ?r)))"
    if codec: "default_codec s = Some codec" and nf: "\<not> minmax_fails s env (part w)" for codec
  proof -
    from codec nf obtain files where ok: "fst ?r = Inr files"
      by (simp add: finalizePartOnDisk_result)
    have ev: "WriteFile DEFAULT_COMPRESSION_CODEC_FILE_NAME (CodecText codec)
             \<in> set (new_events w (snd (snd ?r)))"
      using disk_writes_codec_in [OF nf codec] by (rule new_events_on_disk_mem)
    from finalizePartOnDisk_written [OF ok] written_names_mem [OF ev]
    have "DEFAULT_COMPRESSION_CODEC_FILE_NAME \<in> set files" by simp
    with ok ev show ?thesis by blast
  qed
  have early: "fst ?r = Inl (minmax_exn (part w))
         \<and> DEFAULT_COMPRESSION_CODEC_FILE_NAME
             \<notin> set (written_names (new_events w (snd (snd ?r))))"
    if f: "minmax_fails s env (part w)"
  proof -
    from f have res: "fst ?r = Inl (minmax_exn (part w))"
      by (simp add: finalizePartOnDisk_result)
    from f have dw: "disk_writes s env a (part w) = non_projection_writes s env (part w)"
      by (simp add: disk_writes_def minmax_fails_def)
    have "DEFAULT_COMPRESSION_CODEC_FILE_NAME
             \<notin> set (written_names (new_events w (snd (snd ?r))))"
      using non_projection_writes_no_codec [of s env "part w"]
      by (simp add: new_events_finalizePartOnDisk res dw written_names_write_event)
    with res show ?thesis by blast
  qed
  from no_codec with_codec early show ?thesis by blast
qed

theorem codec_given_but_file_not_written_counterexample:
  "default_codec (sample_stream\<lparr>rows_count := 1\<rparr>) = Some ''LZ4''
   \<and> fst (finalizePartOnDisk (sample_stream\<lparr>rows_count := 1\<rparr>) sample_env None Map.empty
            \<lparr>events = [], part = sample_part\<lparr>minmax_initialized := False\<rparr>\<rparr>) =
       Inl (Exception LOGICAL_ERROR
              ''MinMax index was not initialized for new non-empty part all_1_1_0'')
   \<and> written_names
        (events (snd (snd (finalizePartOnDisk (sample_stream\<lparr>rows_count := 1\<rparr>) sample_env None
                             Map.empty
                             \<lparr>events = [], part = sample_part\<lparr>minmax_initialized := False\<rparr>\<rparr>)))) =
       [''partition.dat'']"
  by (simp add: finalizePartOnDisk_result finalizePartOnDisk_events minmax_fails_def
        minmax_exn_def disk_writes_def non_projection_writes_def source_parts_writes_def
        sample_stream_def sample_env_def sample_part_def Nil_uuid_def write_event_def)

theorem codec_file_written_unless_minmax_fails_witness:
  "default_codec sample_stream = Some ''LZ4''
   \<and> \<not> minmax_fails sample_stream sample_env (part sample_world)
   \<and> WriteFile ''default_compression_codec.txt'' (CodecText ''LZ4'')
       \<in> set (new_events sample_world
                (snd (snd (finalizePartOnDisk sample_stream sample_env None Map.empty sample_world))))
   \<and> default_codec (sample_stream\<lparr>default_codec := None\<rparr>) = None
   \<and> ''checksums.txt''
       \<notin> set (written_names (new_events sample_world
                (snd (snd (finalizePartOnDisk (sample_stream\<lparr>default_codec := None\<rparr>) sample_env
                             None Map.empty sample_world)))))"
proof -
  have c: "default_codec sample_stream = Some ''LZ4''"
    by (simp add: sample_stream_def)
  have nf: "\<not> minmax_fails sample_stream sample_env (part sample_world)"
    by (simp add: minmax_fails_def sample_world_def sample_part_def)
  have n: "default_codec (sample_stream\<lparr>default_codec := None\<rparr>) = None"
    by simp
  from codec_file_written_unless_minmax_fails
         [of sample_stream sample_env None Map.empty sample_world] c nf
  have a: "WriteFile DEFAULT_COMPRESSION_CODEC_FILE_NAME (CodecText ''LZ4'')
       \<in> set (new_events sample_world
                (snd (snd (finalizePartOnDisk sample_stream sample_env None Map.empty sample_world))))"
    by blast
  from codec_file_written_unless_minmax_fails
         [of "sample_stream\<lparr>default_codec := None\<rparr>" sample_env None Map.empty sample_world] n
  have b: "''checksums.txt''
       \<notin> set (written_names (new_events sample_world
                (snd (snd (finalizePartOnDisk (sample_stream\<lparr>default_codec := None\<rparr>) sample_env
                             None Map.empty sample_world)))))"
    by blast
  from a b c nf n show ?thesis
    by (simp only: DEFAULT_COMPRESSION_CODEC_FILE_NAME_def) simp
qed

section \<open>Properties of the finalization a caller invokes\<close>

lemma new_events_finalizePartAsync:
  "new_events w (snd (finalizePartAsync s env sy t acc a w)) =
     WriterFillChecksums
       # new_events (snd (snd (prepare_checksums s env t acc w)))
           (snd (snd (finalizePartOnDisk s env a
                        (fst (snd (prepare_checksums s env t acc w)))
                        (snd (snd (prepare_checksums s env t acc w))))))"
  by (cases "fst (finalizePartOnDisk s env a
                        (fst (snd (prepare_checksums s env t acc w)))
                        (snd (snd (prepare_checksums s env t acc w))))")
     (simp_all add: finalizePartAsync_def Let_def new_events_def finalizePartOnDisk_events
        events_prepare_checksums)

lemma finalizePartAsync_result:
  "fst (finalizePartAsync s env sy t acc a w) =
     (case fst (finalizePartOnDisk s env a
                  (fst (snd (prepare_checksums s env t acc w)))
                  (snd (snd (prepare_checksums s env t acc w)))) of
        Inl e \<Rightarrow> Inl e
      | Inr files \<Rightarrow>
          Inr \<lparr>impl = Some \<lparr>files_to_remove_after_finish = fst (prepare_checksums s env t acc w),
                             written_files = files, sync = sy\<rparr>\<rparr>)"
  by (simp add: finalizePartAsync_def Let_def split: sum.splits)

lemma rows_count_of_part_assigned:
  "rows_count_of_part (assign_part_members s env cs p) = rows_count s"
  by (simp add: assign_part_members_def Let_def split: option.splits)

lemma part_checksums_assigned:
  "part_checksums (assign_part_members s env cs p) = cs"
  by (simp add: assign_part_members_def Let_def split: option.splits)

lemma part_finalizePartAsync:
  "fst (finalizePartAsync s env sy t acc a w) = Inr h \<Longrightarrow>
     part (snd (finalizePartAsync s env sy t acc a w)) =
       assign_part_members s env
         (fst (snd (finalizePartOnDisk s env a
                  (fst (snd (prepare_checksums s env t acc w)))
                  (snd (snd (prepare_checksums s env t acc w))))))
         (part (snd (snd (finalizePartOnDisk s env a
                  (fst (snd (prepare_checksums s env t acc w)))
                  (snd (snd (prepare_checksums s env t acc w)))))))"
  by (simp add: finalizePartAsync_def Let_def split: sum.splits)

lemma finalizePart_thrown:
  "fst (finalizePartAsync s env sy t acc a w) = Inl e \<Longrightarrow>
     finalizePart s env sy t acc a w = (Inl e, snd (finalizePartAsync s env sy t acc a w))"
  by (cases "finalizePartAsync s env sy t acc a w") (simp add: finalizePart_def)

lemma finalizePart_finished:
  "fst (finalizePartAsync s env sy t acc a w) = Inr h \<Longrightarrow> impl h = Some i \<Longrightarrow>
     finalizePart s env sy t acc a w
       = (Inr (), Impl_finish i (snd (finalizePartAsync s env sy t acc a w)))"
  by (cases "finalizePartAsync s env sy t acc a w")
     (simp add: finalizePart_def Let_def Finalizer_finish_def Finalizer_destroy_def)

lemma events_finalizePartAsync_prefix:
  "events (snd (finalizePartAsync s env sy t acc a w)) =
     events w @ new_events w (snd (finalizePartAsync s env sy t acc a w))"
  by (cases "fst (finalizePartOnDisk s env a
                        (fst (snd (prepare_checksums s env t acc w)))
                        (snd (snd (prepare_checksums s env t acc w))))")
     (simp_all add: finalizePartAsync_def Let_def new_events_def finalizePartOnDisk_events
        events_prepare_checksums)

lemma count_txt_of_finalizePartAsync:
  assumes "WriteFile ''count.txt'' c
             \<in> set (new_events w (snd (finalizePartAsync s env sy t acc a w)))"
  shows "c = IntText (uint (rows_count s))"
proof -
  let ?p = "prepare_checksums s env t acc w"
  from assms have "WriteFile ''count.txt'' c
      \<in> set (new_events (snd (snd ?p))
               (snd (snd (finalizePartOnDisk s env a (fst (snd ?p)) (snd (snd ?p))))))"
    by (simp add: new_events_finalizePartAsync)
  from new_events_on_disk_cases [OF this]
  have "(''count.txt'', c) \<in> set (disk_writes s env a (part (snd (snd ?p))))"
    by simp
  then show ?thesis by (rule disk_writes_count)
qed

lemma count_txt_written_by_finalizePartAsync:
  assumes ok: "fst (finalizePartAsync s env sy t acc a w) = Inr h"
  shows "WriteFile ''count.txt'' (IntText (uint (rows_count s)))
           \<in> set (new_events w (snd (finalizePartAsync s env sy t acc a w)))
         \<and> (\<exists>i. impl h = Some i \<and> ''count.txt'' \<in> set (written_files i))
         \<and> rows_count_of_part (part (snd (finalizePartAsync s env sy t acc a w))) = rows_count s"
proof -
  let ?p = "prepare_checksums s env t acc w"
  let ?d = "finalizePartOnDisk s env a (fst (snd ?p)) (snd (snd ?p))"
  from ok obtain files where files: "fst ?d = Inr files"
    and h: "h = \<lparr>impl = Some \<lparr>files_to_remove_after_finish = fst ?p,
                                written_files = files, sync = sy\<rparr>\<rparr>"
    by (cases "fst ?d") (auto simp: finalizePartAsync_result)
  from files have nf: "\<not> minmax_fails s env (part (snd (snd ?p)))"
    by (auto simp: finalizePartOnDisk_result)
  have ev: "WriteFile ''count.txt'' (IntText (uint (rows_count s)))
              \<in> set (new_events (snd (snd ?p)) (snd (snd ?d)))"
    using disk_writes_count_in [OF nf] by (rule new_events_on_disk_mem)
  then have ev': "WriteFile ''count.txt'' (IntText (uint (rows_count s)))
           \<in> set (new_events w (snd (finalizePartAsync s env sy t acc a w)))"
    by (simp add: new_events_finalizePartAsync)
  from finalizePartOnDisk_written [OF files] written_names_mem [OF ev]
  have "''count.txt'' \<in> set files" by simp
  with h have pending: "\<exists>i. impl h = Some i \<and> ''count.txt'' \<in> set (written_files i)"
    by simp
  have "rows_count_of_part (part (snd (finalizePartAsync s env sy t acc a w))) = rows_count s"
    by (simp add: part_finalizePartAsync [OF ok] rows_count_of_part_assigned)
  with ev' pending show ?thesis by blast
qed

lemma finalizePart_cases:
  obtains (thrown) e where "fst (finalizePartAsync s env sy t acc a w) = Inl e"
      and "finalizePart s env sy t acc a w = (Inl e, snd (finalizePartAsync s env sy t acc a w))"
  | (finished) h i where "fst (finalizePartAsync s env sy t acc a w) = Inr h"
      and "impl h = Some i"
      and "finalizePart s env sy t acc a w
             = (Inr (), Impl_finish i (snd (finalizePartAsync s env sy t acc a w)))"
proof (cases "fst (finalizePartAsync s env sy t acc a w)")
  case (Inl e)
  with finalizePart_thrown [OF Inl] thrown show ?thesis by blast
next
  case (Inr h)
  then obtain i where "impl h = Some i"
    by (auto simp: finalizePartAsync_result split: sum.splits)
  with finalizePart_finished [OF Inr this] Inr finished show ?thesis by blast
qed

lemma new_events_after_finish:
  "new_events w (Impl_finish i (snd (finalizePartAsync s env sy t acc a w))) =
     new_events w (snd (finalizePartAsync s env sy t acc a w))
       @ new_events (snd (finalizePartAsync s env sy t acc a w))
           (Impl_finish i (snd (finalizePartAsync s env sy t acc a w)))"
proof -
  let ?w1 = "snd (finalizePartAsync s env sy t acc a w)"
  have "events (Impl_finish i ?w1) = events ?w1 @ new_events ?w1 (Impl_finish i ?w1)"
    by (simp add: new_events_def events_Impl_finish)
  then have "events (Impl_finish i ?w1)
      = events w @ new_events w ?w1 @ new_events ?w1 (Impl_finish i ?w1)"
    using events_finalizePartAsync_prefix [of s env sy t acc a w] by simp
  then show ?thesis
    by (simp add: new_events_def [of w "Impl_finish i ?w1"])
qed

lemma no_write_in_finish: "WriteFile n c \<notin> set (new_events w (Impl_finish i w))"
  by (auto simp: new_events_def events_Impl_finish file_events_def split: if_splits)

lemma count_txt_of_finalizePart:
  assumes "WriteFile ''count.txt'' c
             \<in> set (new_events w (snd (finalizePart s env sy t acc a w)))"
  shows "c = IntText (uint (rows_count s))"
proof (cases rule: finalizePart_cases [of s env sy t acc a w])
  case (thrown e)
  with assms show ?thesis by (simp add: count_txt_of_finalizePartAsync)
next
  case (finished h i)
  with assms have "WriteFile ''count.txt'' c
      \<in> set (new_events w (snd (finalizePartAsync s env sy t acc a w)))"
    by (simp add: new_events_after_finish no_write_in_finish)
  then show ?thesis by (rule count_txt_of_finalizePartAsync)
qed

lemma count_txt_written_by_finalizePart:
  assumes ok: "fst (finalizePart s env sy t acc a w) = Inr ()"
  shows "WriteFile ''count.txt'' (IntText (uint (rows_count s)))
           \<in> set (new_events w (snd (finalizePart s env sy t acc a w)))
         \<and> FileFinalize ''count.txt'' \<in> set (new_events w (snd (finalizePart s env sy t acc a w)))
         \<and> rows_count_of_part (part (snd (finalizePart s env sy t acc a w))) = rows_count s"
proof (cases rule: finalizePart_cases [of s env sy t acc a w])
  case (thrown e)
  with ok show ?thesis by simp
next
  case (finished h i)
  from count_txt_written_by_finalizePartAsync [OF finished(1)] finished(2)
  have ev: "WriteFile ''count.txt'' (IntText (uint (rows_count s)))
           \<in> set (new_events w (snd (finalizePartAsync s env sy t acc a w)))"
    and pending: "''count.txt'' \<in> set (written_files i)"
    and rc: "rows_count_of_part (part (snd (finalizePartAsync s env sy t acc a w))) = rows_count s"
    by auto
  from pending have "FileFinalize ''count.txt''
      \<in> set (new_events (snd (finalizePartAsync s env sy t acc a w))
               (Impl_finish i (snd (finalizePartAsync s env sy t acc a w))))"
    by (auto simp: new_events_def events_Impl_finish file_events_def)
  with ev rc finished(3) show ?thesis
    by (simp add: new_events_after_finish part_Impl_finish)
qed

lemma sample_prepare_checksums_any:
  "prepare_checksums (sample_stream\<lparr>rows_count := n\<rparr>) sample_env None acc (emit es sample_world) =
     ([], (case acc of Some c \<Rightarrow> c | None \<Rightarrow> Map.empty),
      emit (es @ [WriterFillChecksums]) sample_world)"
  by (simp add: prepare_checksums_def Let_def sample_stream_def sample_world_def
        sample_part_def emit_def)

lemma sample_finalizePartOnDisk_any:
  "fst (finalizePartOnDisk (sample_stream\<lparr>rows_count := n\<rparr>) sample_env None cs
          (emit es sample_world)) =
     Inr [''partition.dat'', ''minmax_d.idx'', ''count.txt'', ''columns.txt'',
          ''metadata_version.txt'', ''default_compression_codec.txt'', ''checksums.txt'']"
  by (simp add: finalizePartOnDisk_result minmax_fails_def disk_writes_def
        non_projection_writes_def common_writes_def minmax_writes_def source_parts_writes_def
        sample_stream_def sample_env_def sample_world_def sample_part_def part_emit
        Nil_uuid_def minmax_file_name_def ttl_infos_empty_def
        METADATA_VERSION_FILE_NAME_def DEFAULT_COMPRESSION_CODEC_FILE_NAME_def)

lemma sample_finalizePartAsync_any:
  "fst (finalizePartAsync (sample_stream\<lparr>rows_count := n\<rparr>) sample_env sy None acc None
          (emit es sample_world)) =
     Inr \<lparr>impl = Some \<lparr>files_to_remove_after_finish = [],
            written_files = [''partition.dat'', ''minmax_d.idx'', ''count.txt'', ''columns.txt'',
              ''metadata_version.txt'', ''default_compression_codec.txt'', ''checksums.txt''],
            sync = sy\<rparr>\<rparr>"
  by (simp add: finalizePartAsync_result sample_prepare_checksums_any
        sample_finalizePartOnDisk_any)

lemma sample_finalizePart_any:
  "fst (finalizePart (sample_stream\<lparr>rows_count := n\<rparr>) sample_env sy None acc None
          (emit es sample_world)) = Inr ()"
  using finalizePart_finished [OF sample_finalizePartAsync_any] by simp

section \<open>The row count file\<close>

text \<open>
  Claim C2. Take a stream that has counted no row yet and a sequence of \<^verbatim>\<open>write\<close> and
  \<^verbatim>\<open>writeWithPermutation\<close> calls that all return. Then the row counter is the sum of the
  row counts of the batches, and the serializer was called for the batches with rows and
  for no other. Whatever the arguments of the finalization that follows, be it
  \<^verbatim>\<open>finalizePartAsync\<close> or \<^verbatim>\<open>finalizePart\<close>, every \<^verbatim>\<open>count.txt\<close> it writes holds that sum;
  when it succeeds it has written \<^verbatim>\<open>count.txt\<close> with that sum and has set the row count
  of the part to it, \<^verbatim>\<open>finalizePartAsync\<close> returns the file among the pending files of the
  handle, and \<^verbatim>\<open>finalizePart\<close> has finalized the file. The same holds of
  \<^verbatim>\<open>finalizePartOnDisk\<close>, which both go through. The counter and the sum are \<^verbatim>\<open>size_t\<close>
  values; the sum is the sum of the natural numbers as long as that stays below
  \<open>2 ^ 64\<close>. A batch without rows leaves the stream and the world as they are.
\<close>

theorem count_txt_is_sum_of_rows:
  assumes "rows_count s = 0"
    and "write_all env batches (s, w) = (Inr (), s', w')"
  shows "rows_count s' = sum_list (map (rows \<circ> fst) batches)
    \<and> new_events w w' = serializer_calls batches
    \<and> (\<forall>sy t acc a c. WriteFile ''count.txt'' c
            \<in> set (new_events w' (snd (finalizePartAsync s' env sy t acc a w')))
          \<longrightarrow> c = IntText (uint (sum_list (map (rows \<circ> fst) batches))))
    \<and> (\<forall>sy t acc a h. fst (finalizePartAsync s' env sy t acc a w') = Inr h
          \<longrightarrow> WriteFile ''count.txt'' (IntText (uint (sum_list (map (rows \<circ> fst) batches))))
                \<in> set (new_events w' (snd (finalizePartAsync s' env sy t acc a w')))
              \<and> (\<exists>i. impl h = Some i \<and> ''count.txt'' \<in> set (written_files i))
              \<and> rows_count_of_part (part (snd (finalizePartAsync s' env sy t acc a w')))
                  = sum_list (map (rows \<circ> fst) batches))
    \<and> (\<forall>sy t acc a c. WriteFile ''count.txt'' c
            \<in> set (new_events w' (snd (finalizePart s' env sy t acc a w')))
          \<longrightarrow> c = IntText (uint (sum_list (map (rows \<circ> fst) batches))))
    \<and> (\<forall>sy t acc a. fst (finalizePart s' env sy t acc a w') = Inr ()
          \<longrightarrow> WriteFile ''count.txt'' (IntText (uint (sum_list (map (rows \<circ> fst) batches))))
                \<in> set (new_events w' (snd (finalizePart s' env sy t acc a w')))
              \<and> FileFinalize ''count.txt''
                \<in> set (new_events w' (snd (finalizePart s' env sy t acc a w')))
              \<and> rows_count_of_part (part (snd (finalizePart s' env sy t acc a w')))
                  = sum_list (map (rows \<circ> fst) batches))
    \<and> (\<forall>a cs c. WriteFile ''count.txt'' c
            \<in> set (new_events w' (snd (snd (finalizePartOnDisk s' env a cs w'))))
          \<longrightarrow> c = IntText (uint (sum_list (map (rows \<circ> fst) batches))))
    \<and> (\<forall>a cs files. fst (finalizePartOnDisk s' env a cs w') = Inr files
          \<longrightarrow> ''count.txt'' \<in> set files
              \<and> WriteFile ''count.txt'' (IntText (uint (sum_list (map (rows \<circ> fst) batches))))
                   \<in> set (new_events w' (snd (snd (finalizePartOnDisk s' env a cs w')))))
    \<and> (sum_list (map (\<lambda>bp. unat (rows (fst bp))) batches) < 2 ^ 64
          \<longrightarrow> uint (sum_list (map (rows \<circ> fst) batches))
              = int (sum_list (map (\<lambda>bp. unat (rows (fst bp))) batches)))
    \<and> (\<forall>b perm s0 w0. rows b = 0 \<longrightarrow> snd (writeImpl env b perm (s0, w0)) = (s0, w0))
    \<and> (\<forall>b perm s0 w0. rows b = 0 \<and> checkNumberOfRows b = Inr ()
          \<longrightarrow> writeImpl env b perm (s0, w0) = (Inr (), s0, w0))"
proof -
  let ?sum = "sum_list (map (rows \<circ> fst) batches)"
  from write_all_rows [OF assms(2)] assms(1)
  have count: "rows_count s' = ?sum" and ev: "events w' = events w @ serializer_calls batches"
    by simp_all
  have calls: "new_events w w' = serializer_calls batches"
    using ev by (rule new_events_append)
  have async_only: "c = IntText (uint ?sum)"
    if "WriteFile ''count.txt'' c
          \<in> set (new_events w' (snd (finalizePartAsync s' env sy t acc a w')))" for sy t acc a c
    using count_txt_of_finalizePartAsync [OF that] count by simp
  have async_written: "WriteFile ''count.txt'' (IntText (uint ?sum))
                \<in> set (new_events w' (snd (finalizePartAsync s' env sy t acc a w')))
              \<and> (\<exists>i. impl h = Some i \<and> ''count.txt'' \<in> set (written_files i))
              \<and> rows_count_of_part (part (snd (finalizePartAsync s' env sy t acc a w'))) = ?sum"
    if "fst (finalizePartAsync s' env sy t acc a w') = Inr h" for sy t acc a h
    using count_txt_written_by_finalizePartAsync [OF that] count by simp
  have sync_only: "c = IntText (uint ?sum)"
    if "WriteFile ''count.txt'' c
          \<in> set (new_events w' (snd (finalizePart s' env sy t acc a w')))" for sy t acc a c
    using count_txt_of_finalizePart [OF that] count by simp
  have sync_written: "WriteFile ''count.txt'' (IntText (uint ?sum))
                \<in> set (new_events w' (snd (finalizePart s' env sy t acc a w')))
              \<and> FileFinalize ''count.txt''
                \<in> set (new_events w' (snd (finalizePart s' env sy t acc a w')))
              \<and> rows_count_of_part (part (snd (finalizePart s' env sy t acc a w'))) = ?sum"
    if "fst (finalizePart s' env sy t acc a w') = Inr ()" for sy t acc a
    using count_txt_written_by_finalizePart [OF that] count by simp
  have only: "c = IntText (uint ?sum)"
    if "WriteFile ''count.txt'' c
          \<in> set (new_events w' (snd (snd (finalizePartOnDisk s' env a cs w'))))" for a cs c
  proof -
    from new_events_on_disk_cases [OF that]
    have "(''count.txt'', c) \<in> set (disk_writes s' env a (part w'))"
      by simp
    then have "c = IntText (uint (rows_count s'))"
      by (rule disk_writes_count)
    then show ?thesis using count by simp
  qed
  have written: "''count.txt'' \<in> set files
      \<and> WriteFile ''count.txt'' (IntText (uint ?sum))
           \<in> set (new_events w' (snd (snd (finalizePartOnDisk s' env a cs w'))))"
    if ok: "fst (finalizePartOnDisk s' env a cs w') = Inr files" for a cs files
  proof -
    from ok have nf: "\<not> minmax_fails s' env (part w')"
      by (auto simp: finalizePartOnDisk_result)
    have "WriteFile ''count.txt'' (IntText (uint (rows_count s')))
           \<in> set (new_events w' (snd (snd (finalizePartOnDisk s' env a cs w'))))"
      using disk_writes_count_in [OF nf] by (rule new_events_on_disk_mem)
    then have ev: "WriteFile ''count.txt'' (IntText (uint ?sum))
           \<in> set (new_events w' (snd (snd (finalizePartOnDisk s' env a cs w'))))"
      using count by simp
    from finalizePartOnDisk_written [OF ok] written_names_mem [OF ev]
    have "''count.txt'' \<in> set files" by simp
    with ev show ?thesis by blast
  qed
  have nat_sum: "uint ?sum = int (sum_list (map (\<lambda>bp. unat (rows (fst bp))) batches))"
    if "sum_list (map (\<lambda>bp. unat (rows (fst bp))) batches) < 2 ^ 64"
    using unat_sum_list [of "rows \<circ> fst" batches] that by (simp add: comp_def uint_nat)
  have c3: "\<forall>sy t acc a c. WriteFile ''count.txt'' c
            \<in> set (new_events w' (snd (finalizePartAsync s' env sy t acc a w')))
          \<longrightarrow> c = IntText (uint ?sum)"
    using async_only by blast
  have c4: "\<forall>sy t acc a h. fst (finalizePartAsync s' env sy t acc a w') = Inr h
          \<longrightarrow> WriteFile ''count.txt'' (IntText (uint ?sum))
                \<in> set (new_events w' (snd (finalizePartAsync s' env sy t acc a w')))
              \<and> (\<exists>i. impl h = Some i \<and> ''count.txt'' \<in> set (written_files i))
              \<and> rows_count_of_part (part (snd (finalizePartAsync s' env sy t acc a w'))) = ?sum"
    using async_written by blast
  have c5: "\<forall>sy t acc a c. WriteFile ''count.txt'' c
            \<in> set (new_events w' (snd (finalizePart s' env sy t acc a w')))
          \<longrightarrow> c = IntText (uint ?sum)"
    using sync_only by blast
  have c6: "\<forall>sy t acc a. fst (finalizePart s' env sy t acc a w') = Inr ()
          \<longrightarrow> WriteFile ''count.txt'' (IntText (uint ?sum))
                \<in> set (new_events w' (snd (finalizePart s' env sy t acc a w')))
              \<and> FileFinalize ''count.txt''
                \<in> set (new_events w' (snd (finalizePart s' env sy t acc a w')))
              \<and> rows_count_of_part (part (snd (finalizePart s' env sy t acc a w'))) = ?sum"
    using sync_written by blast
  have c7: "\<forall>a cs c. WriteFile ''count.txt'' c
            \<in> set (new_events w' (snd (snd (finalizePartOnDisk s' env a cs w'))))
          \<longrightarrow> c = IntText (uint ?sum)"
    using only by blast
  have c8: "\<forall>a cs files. fst (finalizePartOnDisk s' env a cs w') = Inr files
          \<longrightarrow> ''count.txt'' \<in> set files
              \<and> WriteFile ''count.txt'' (IntText (uint ?sum))
                   \<in> set (new_events w' (snd (snd (finalizePartOnDisk s' env a cs w'))))"
    using written by blast
  have c9: "sum_list (map (\<lambda>bp. unat (rows (fst bp))) batches) < 2 ^ 64
          \<longrightarrow> uint ?sum = int (sum_list (map (\<lambda>bp. unat (rows (fst bp))) batches))"
    using nat_sum by blast
  have c10: "\<forall>b perm s0 w0. rows b = 0 \<longrightarrow> snd (writeImpl env b perm (s0, w0)) = (s0, w0)"
    using writeImpl_empty by blast
  have c11: "\<forall>b perm s0 w0. rows b = 0 \<and> checkNumberOfRows b = Inr ()
          \<longrightarrow> writeImpl env b perm (s0, w0) = (Inr (), s0, w0)"
    using writeImpl_empty_ok by blast
  show ?thesis
    by (intro conjI; fact)
qed

theorem count_txt_is_sum_of_rows_witness:
  "rows_count sample_stream = 0
   \<and> write_all sample_env
       [([(''d'', 100), (''x'', 100)], None), ([(''d'', 0), (''x'', 0)], Some []),
        ([(''d'', 50), (''x'', 50)], None)]
       (sample_stream, sample_world) =
     (Inr (), sample_stream\<lparr>rows_count := 150\<rparr>,
      emit [WriterWrite [(''d'', 100), (''x'', 100)] None,
            WriterWrite [(''d'', 50), (''x'', 50)] None] sample_world)
   \<and> fst (finalizePart (sample_stream\<lparr>rows_count := 150\<rparr>) sample_env True None None None
            (emit [WriterWrite [(''d'', 100), (''x'', 100)] None,
                   WriterWrite [(''d'', 50), (''x'', 50)] None] sample_world)) = Inr ()
   \<and> WriteFile ''count.txt'' (IntText 150)
       \<in> set (new_events
                (emit [WriterWrite [(''d'', 100), (''x'', 100)] None,
                       WriterWrite [(''d'', 50), (''x'', 50)] None] sample_world)
                (snd (finalizePart (sample_stream\<lparr>rows_count := 150\<rparr>) sample_env True
                        None None None
                        (emit [WriterWrite [(''d'', 100), (''x'', 100)] None,
                               WriterWrite [(''d'', 50), (''x'', 50)] None] sample_world))))
   \<and> uint (rows_count_of_part
        (part (snd (finalizePart (sample_stream\<lparr>rows_count := 150\<rparr>) sample_env True
                      None None None
                      (emit [WriterWrite [(''d'', 100), (''x'', 100)] None,
                             WriterWrite [(''d'', 50), (''x'', 50)] None] sample_world))))) = 150
   \<and> snd (writeImpl sample_env [(''d'', 0), (''x'', 0)] (Some []) (sample_stream, sample_world))
       = (sample_stream, sample_world)"
proof -
  let ?B = "[([(''d'', 100), (''x'', 100)], None), ([(''d'', 0), (''x'', 0)], Some []),
             ([(''d'', 50), (''x'', 50)], None)] :: (block \<times> permutation option) list"
  let ?s = "sample_stream\<lparr>rows_count := 150\<rparr>"
  let ?w = "emit [WriterWrite [(''d'', 100), (''x'', 100)] None,
                  WriterWrite [(''d'', 50), (''x'', 50)] None] sample_world"
  note T = count_txt_is_sum_of_rows [OF sample_stream_simps(1) sample_write_all]
  have zero: "rows [(''d'', 0), (''x'', 0)] = 0"
    by (simp add: rows_def)
  have total: "uint (sum_list (map (rows \<circ> fst) ?B)) = 150"
    by (simp add: rows_def)
  have ok: "fst (finalizePart ?s sample_env True None None None ?w) = Inr ()"
    by (rule sample_finalizePart_any)
  from T ok have "WriteFile ''count.txt'' (IntText (uint (sum_list (map (rows \<circ> fst) ?B))))
       \<in> set (new_events ?w (snd (finalizePart ?s sample_env True None None None ?w)))
     \<and> rows_count_of_part (part (snd (finalizePart ?s sample_env True None None None ?w)))
         = sum_list (map (rows \<circ> fst) ?B)"
    by blast
  then have c1: "WriteFile ''count.txt'' (IntText 150)
       \<in> set (new_events ?w (snd (finalizePart ?s sample_env True None None None ?w)))"
    and c2: "uint (rows_count_of_part
               (part (snd (finalizePart ?s sample_env True None None None ?w)))) = 150"
    by (simp_all only: total)
  from T zero have c3:
    "snd (writeImpl sample_env [(''d'', 0), (''x'', 0)] (Some []) (sample_stream, sample_world))
       = (sample_stream, sample_world)"
    by blast
  from sample_stream_simps(1) sample_write_all ok c1 c2 c3 show ?thesis
    by blast
qed

section \<open>The checksums file comes last\<close>

text \<open>
  Claim C6, as the code has it. When \<^verbatim>\<open>finalizePartOnDisk\<close> returns, the last file it
  wrote is \<^verbatim>\<open>checksums.txt\<close>, holding the checksums it returns; every other file was
  written before and under another name; and the function itself gives \<^verbatim>\<open>checksums.txt\<close>
  no entry: the checksums recorded hold, under that name, exactly what the checksums
  handed in held, so the name is a key of the recorded map if and only if it was a key of
  the map handed in.
\<close>

theorem checksums_txt_written_last:
  assumes "finalizePartOnDisk s env a cs w = (Inr files, cs', w')"
  shows "\<exists>others. new_events w w'
             = map write_event others @ [WriteFile ''checksums.txt'' (ChecksumsText cs')]
           \<and> files = map fst others @ [''checksums.txt'']
           \<and> ''checksums.txt'' \<notin> fst ` set others
           \<and> cs' ''checksums.txt'' = cs ''checksums.txt''
           \<and> (''checksums.txt'' \<notin> dom cs \<longrightarrow> ''checksums.txt'' \<notin> dom cs')
           \<and> (''checksums.txt'' \<in> dom cs' \<longleftrightarrow> ''checksums.txt'' \<in> dom cs)"
proof -
  let ?others = "disk_writes s env a (part w)"
  from assms have ok: "fst (finalizePartOnDisk s env a cs w) = Inr files"
    and cs': "fst (snd (finalizePartOnDisk s env a cs w)) = cs'"
    and w': "snd (snd (finalizePartOnDisk s env a cs w)) = w'"
    by simp_all
  have ev: "new_events w w' = map write_event ?others @ [WriteFile ''checksums.txt'' (ChecksumsText cs')]"
    using new_events_finalizePartOnDisk [of w s env a cs] ok cs' w' by simp
  have "written_names (new_events w w') = files"
    using finalizePartOnDisk_written [OF ok] w' by simp
  then have files: "files = map fst ?others @ [''checksums.txt'']"
    by (simp add: ev written_names_append written_names_write_event)
  have key: "cs' ''checksums.txt'' = cs ''checksums.txt''"
    using finalizePartOnDisk_checksums_txt [of s env a cs w] cs' by simp
  then have "''checksums.txt'' \<notin> dom cs \<longrightarrow> ''checksums.txt'' \<notin> dom cs'"
    and "''checksums.txt'' \<in> dom cs' \<longleftrightarrow> ''checksums.txt'' \<in> dom cs"
    by (simp_all add: dom_def)
  with ev files key disk_writes_no_checksums [of s env a "part w"] show ?thesis by blast
qed

text \<open>
  The claim as it was stated fails when the checksums handed in hold the name: the
  finalization succeeds and the recorded map, in \<^verbatim>\<open>checksums.txt\<close> and in the part, holds
  it too.
\<close>

theorem checksums_txt_key_handed_in_counterexample:
  "fst (finalizePartOnDisk sample_stream sample_env None
          [''checksums.txt'' \<mapsto> default_checksum] sample_world) =
     Inr [''partition.dat'', ''minmax_d.idx'', ''count.txt'', ''columns.txt'',
          ''metadata_version.txt'', ''default_compression_codec.txt'', ''checksums.txt'']
   \<and> fst (snd (finalizePartOnDisk sample_stream sample_env None
                  [''checksums.txt'' \<mapsto> default_checksum] sample_world)) ''checksums.txt''
       = Some default_checksum
   \<and> fst (finalizePartAsync sample_stream sample_env True None
            (Some [''checksums.txt'' \<mapsto> default_checksum]) None sample_world) =
       Inr \<lparr>impl = Some \<lparr>files_to_remove_after_finish = [],
              written_files = [''partition.dat'', ''minmax_d.idx'', ''count.txt'', ''columns.txt'',
                ''metadata_version.txt'', ''default_compression_codec.txt'', ''checksums.txt''],
              sync = True\<rparr>\<rparr>
   \<and> part_checksums
        (part (snd (finalizePartAsync sample_stream sample_env True None
                      (Some [''checksums.txt'' \<mapsto> default_checksum]) None sample_world)))
        ''checksums.txt''
       = Some default_checksum"
proof -
  have s: "sample_stream = sample_stream\<lparr>rows_count := 0\<rparr>"
    by (simp add: sample_stream_def)
  have w: "sample_world = emit [] sample_world"
    by (simp add: emit_def)
  have a: "fst (finalizePartOnDisk sample_stream sample_env None
          [''checksums.txt'' \<mapsto> default_checksum] sample_world) =
     Inr [''partition.dat'', ''minmax_d.idx'', ''count.txt'', ''columns.txt'',
          ''metadata_version.txt'', ''default_compression_codec.txt'', ''checksums.txt'']"
    using sample_finalizePartOnDisk_any [of 0 "[''checksums.txt'' \<mapsto> default_checksum]" "[]"]
    by (simp add: s [symmetric] w [symmetric])
  have b: "fst (snd (finalizePartOnDisk sample_stream sample_env None
                  [''checksums.txt'' \<mapsto> default_checksum] sample_world)) ''checksums.txt''
       = Some default_checksum"
    by (simp add: finalizePartOnDisk_checksums_txt)
  have c: "fst (finalizePartAsync sample_stream sample_env True None
            (Some [''checksums.txt'' \<mapsto> default_checksum]) None sample_world) =
       Inr \<lparr>impl = Some \<lparr>files_to_remove_after_finish = [],
              written_files = [''partition.dat'', ''minmax_d.idx'', ''count.txt'', ''columns.txt'',
                ''metadata_version.txt'', ''default_compression_codec.txt'', ''checksums.txt''],
              sync = True\<rparr>\<rparr>"
    using sample_finalizePartAsync_any
            [of 0 True "Some [''checksums.txt'' \<mapsto> default_checksum]" "[]"]
    by (simp add: s [symmetric] w [symmetric])
  have p: "prepare_checksums sample_stream sample_env None
             (Some [''checksums.txt'' \<mapsto> default_checksum]) sample_world
           = ([], [''checksums.txt'' \<mapsto> default_checksum],
              emit [WriterFillChecksums] sample_world)"
    using sample_prepare_checksums_any
            [of 0 "Some [''checksums.txt'' \<mapsto> default_checksum]" "[]"]
    by (simp add: s [symmetric] w [symmetric])
  have d: "part_checksums
        (part (snd (finalizePartAsync sample_stream sample_env True None
                      (Some [''checksums.txt'' \<mapsto> default_checksum]) None sample_world)))
        ''checksums.txt''
       = Some default_checksum"
    by (simp add: part_finalizePartAsync [OF c] part_checksums_assigned p
          finalizePartOnDisk_checksums_txt)
  from a b c d show ?thesis by blast
qed

theorem checksums_txt_written_last_witness:
  "fst (finalizePartOnDisk sample_stream sample_env None Map.empty sample_world) =
     Inr [''partition.dat'', ''minmax_d.idx'', ''count.txt'', ''columns.txt'',
          ''metadata_version.txt'', ''default_compression_codec.txt'', ''checksums.txt'']
   \<and> ''checksums.txt''
       \<notin> dom (fst (snd (finalizePartOnDisk sample_stream sample_env None Map.empty sample_world)))
   \<and> last (new_events sample_world
        (snd (snd (finalizePartOnDisk sample_stream sample_env None Map.empty sample_world)))) =
       WriteFile ''checksums.txt''
         (ChecksumsText
            (fst (snd (finalizePartOnDisk sample_stream sample_env None Map.empty sample_world))))"
proof -
  let ?r = "finalizePartOnDisk sample_stream sample_env None Map.empty sample_world"
  have ok: "fst ?r = Inr [''partition.dat'', ''minmax_d.idx'', ''count.txt'', ''columns.txt'',
          ''metadata_version.txt'', ''default_compression_codec.txt'', ''checksums.txt'']"
    using sample_finalizePartOnDisk_rows [of 0 "[]"]
    by (simp add: sample_stream_def emit_def)
  then have eq: "?r = (Inr [''partition.dat'', ''minmax_d.idx'', ''count.txt'', ''columns.txt'',
          ''metadata_version.txt'', ''default_compression_codec.txt'', ''checksums.txt''],
          fst (snd ?r), snd (snd ?r))"
    by (metis prod.collapse)
  from checksums_txt_written_last [OF eq] obtain others where
    "new_events sample_world (snd (snd ?r))
       = map write_event others @ [WriteFile ''checksums.txt'' (ChecksumsText (fst (snd ?r)))]"
    and "''checksums.txt'' \<notin> dom (Map.empty :: checksums) \<longrightarrow> ''checksums.txt'' \<notin> dom (fst (snd ?r))"
    by blast
  with ok show ?thesis by simp
qed

section \<open>Deletions follow the writes\<close>

text \<open>
  Claim C7. The trace of \<^verbatim>\<open>Impl::finish\<close> is: the writer is finished, each pending file
  is finalized (and synced when \<open>sync\<close> is set), the transaction is committed and a new
  one begun exactly when there are files to remove, and then the files are removed. So
  whatever precedes a removal contains the whole write phase followed by the commit and
  the begin, and only removals follow it.
\<close>

theorem finish_deletes_after_writes:
  "new_events w (Impl_finish i w) =
     WriterFinish (sync i) # concat (map (file_events (sync i)) (written_files i))
       @ (if files_to_remove_after_finish i \<noteq> [] then [CommitTransaction, BeginTransaction]
          else [])
       @ map RemoveFile (files_to_remove_after_finish i)
   \<and> (\<forall>pre n post. new_events w (Impl_finish i w) = pre @ RemoveFile n # post \<longrightarrow>
         (\<exists>earlier. pre = WriterFinish (sync i)
                       # concat (map (file_events (sync i)) (written_files i))
                       @ [CommitTransaction, BeginTransaction] @ map RemoveFile earlier)
         \<and> (\<exists>later. post = map RemoveFile later))
   \<and> (\<forall>f \<in> set (written_files i).
         FileFinalize f \<in> set (new_events w (Impl_finish i w))
         \<and> (sync i \<longrightarrow> FileSync f \<in> set (new_events w (Impl_finish i w))))
   \<and> (\<forall>n \<in> set (files_to_remove_after_finish i).
         RemoveFile n \<in> set (new_events w (Impl_finish i w)))
   \<and> (CommitTransaction \<in> set (new_events w (Impl_finish i w))
        \<longleftrightarrow> files_to_remove_after_finish i \<noteq> [])
   \<and> (BeginTransaction \<in> set (new_events w (Impl_finish i w))
        \<longleftrightarrow> files_to_remove_after_finish i \<noteq> [])"
proof -
  have tr: "new_events w (Impl_finish i w) =
     WriterFinish (sync i) # concat (map (file_events (sync i)) (written_files i))
       @ (if files_to_remove_after_finish i \<noteq> [] then [CommitTransaction, BeginTransaction]
          else [])
       @ map RemoveFile (files_to_remove_after_finish i)"
    by (simp add: new_events_def events_Impl_finish)
  have order: "(\<exists>earlier. pre = WriterFinish (sync i)
                       # concat (map (file_events (sync i)) (written_files i))
                       @ [CommitTransaction, BeginTransaction] @ map RemoveFile earlier)
         \<and> (\<exists>later. post = map RemoveFile later)"
    if "new_events w (Impl_finish i w) = pre @ RemoveFile n # post" for pre n post
    using that by (rule finish_trace_split)
  have fin: "FileFinalize f \<in> set (new_events w (Impl_finish i w))
         \<and> (sync i \<longrightarrow> FileSync f \<in> set (new_events w (Impl_finish i w)))"
    if "f \<in> set (written_files i)" for f
    using that by (auto simp: tr file_events_def)
  have rm: "RemoveFile n \<in> set (new_events w (Impl_finish i w))"
    if "n \<in> set (files_to_remove_after_finish i)" for n
    using that by (auto simp: tr)
  have commit: "CommitTransaction \<in> set (new_events w (Impl_finish i w))
        \<longleftrightarrow> files_to_remove_after_finish i \<noteq> []"
    by (auto simp: tr file_events_def split: if_splits)
  have begin_tx: "BeginTransaction \<in> set (new_events w (Impl_finish i w))
        \<longleftrightarrow> files_to_remove_after_finish i \<noteq> []"
    by (auto simp: tr file_events_def split: if_splits)
  from tr order fin rm commit begin_tx show ?thesis by blast
qed

theorem finish_deletes_after_writes_witness:
  "new_events sample_world (Impl_finish sample_impl sample_world) =
     [WriterFinish True, FileFinalize ''count.txt'', FileSync ''count.txt'',
      CommitTransaction, BeginTransaction, RemoveFile ''x.bin'']
   \<and> FileSync ''count.txt'' \<in> set (new_events sample_world (Impl_finish sample_impl sample_world))
   \<and> RemoveFile ''x.bin'' \<in> set (new_events sample_world (Impl_finish sample_impl sample_world))
   \<and> CommitTransaction \<in> set (new_events sample_world (Impl_finish sample_impl sample_world))"
  using finish_deletes_after_writes [of sample_world sample_impl]
  by (simp add: sample_impl_def file_events_def)

section \<open>Properties of the TTL bookkeeping\<close>









lemma ttl_keys_store:
  "ttl_keys (store_ttl_info a infos) field =
     (if ttl_update_field a = field \<and> field \<noteq> TABLE_TTL
      then insert (ttl_update_key a) (ttl_keys infos field) else ttl_keys infos field)"
  by (cases field; cases "ttl_update_field a") (simp_all add: ttl_keys_def store_ttl_info_def)

lemma ttl_keys_fold:
  "ttl_keys (fold store_ttl_info algs infos) field =
     ttl_keys infos field
     \<union> (if field = TABLE_TTL then {}
        else ttl_update_key ` {a \<in> set algs. ttl_update_field a = field})"
  by (induction algs arbitrary: infos) (auto simp: ttl_keys_store)

lemma ttl_keys_empty: "ttl_keys empty_ttl_infos field = {}"
  by (cases field) (simp_all add: ttl_keys_def empty_ttl_infos_def)

lemma part_ttl_infos_finalize:
  "part_ttl_infos (TTLCalcTransform_finalize algs p) = fold store_ttl_info algs empty_ttl_infos"
  by (simp add: TTLCalcTransform_finalize_def part_ttl_infos_fold)

lemma finalize_other_members:
  "(TTLCalcTransform_finalize algs p)\<lparr>part_ttl_infos := part_ttl_infos p\<rparr> = p"
proof -
  have "(fold algorithm_finalize algs q)\<lparr>part_ttl_infos := t\<rparr> = q\<lparr>part_ttl_infos := t\<rparr>" for q t
    by (induction algs arbitrary: q) (simp_all add: algorithm_finalize_def)
  then show ?thesis by (simp add: TTLCalcTransform_finalize_def)
qed










section \<open>The TTL info of the part after a run\<close>

text \<open>
  Claim C8. \<^verbatim>\<open>TTLCalcTransform::finalize\<close> leaves in the part the TTL info obtained by
  storing the bounds of the algorithms, in order, into an empty structure. So the result
  does not depend on the TTL info the part had; the bound it holds for a rule is the one
  of the last algorithm for that rule, and none when no algorithm is for that rule; the
  keys of its maps are the keys of the algorithms of that kind; and no other member of
  the part changes.
\<close>

theorem ttl_finalize_replaces_wholesale:
  "part_ttl_infos (TTLCalcTransform_finalize algs p) = fold store_ttl_info algs empty_ttl_infos
   \<and> part_ttl_infos (TTLCalcTransform_finalize algs (p\<lparr>part_ttl_infos := previous\<rparr>))
       = part_ttl_infos (TTLCalcTransform_finalize algs p)
   \<and> ttl_entry (part_ttl_infos (TTLCalcTransform_finalize algs p)) field key
       = (case filter (same_rule field key) (rev algs) of
            [] \<Rightarrow> None
          | a # _ \<Rightarrow> new_ttl_info a)
   \<and> ttl_keys (part_ttl_infos (TTLCalcTransform_finalize algs p)) field
       = (if field = TABLE_TTL then {}
          else ttl_update_key ` {a \<in> set algs. ttl_update_field a = field})
   \<and> (TTLCalcTransform_finalize algs p)\<lparr>part_ttl_infos := part_ttl_infos p\<rparr> = p"
  by (simp add: part_ttl_infos_finalize ttl_entry_fold ttl_entry_empty ttl_keys_fold
        ttl_keys_empty finalize_other_members split: list.splits)

theorem ttl_finalize_replaces_wholesale_witness:
  "moves_ttl (part_ttl_infos
       (TTLCalcTransform_finalize
          [make_TTLUpdateInfoAlgorithm \<lparr>result_column = ''t''\<rparr> TABLE_TTL ''t'' (Some (10, 20)) 0 False]
          (sample_part\<lparr>part_ttl_infos :=
             empty_ttl_infos\<lparr>table_ttl := Some (5, 9), moves_ttl := [''m'' \<mapsto> Some (1, 2)]\<rparr>\<rparr>)))
     = Map.empty
   \<and> table_ttl (part_ttl_infos
       (TTLCalcTransform_finalize
          [make_TTLUpdateInfoAlgorithm \<lparr>result_column = ''t''\<rparr> TABLE_TTL ''t'' (Some (10, 20)) 0 False]
          (sample_part\<lparr>part_ttl_infos :=
             empty_ttl_infos\<lparr>table_ttl := Some (5, 9), moves_ttl := [''m'' \<mapsto> Some (1, 2)]\<rparr>\<rparr>)))
     = Some (10, 20)"
  using ttl_finalize_replaces_wholesale
    [of "[make_TTLUpdateInfoAlgorithm \<lparr>result_column = ''t''\<rparr> TABLE_TTL ''t'' (Some (10, 20)) 0 False]"
        "sample_part\<lparr>part_ttl_infos :=
             empty_ttl_infos\<lparr>table_ttl := Some (5, 9), moves_ttl := [''m'' \<mapsto> Some (1, 2)]\<rparr>\<rparr>"]
  by (simp add: make_TTLUpdateInfoAlgorithm_def store_ttl_info_def empty_ttl_infos_def)




section \<open>The synchronous finalization\<close>

text \<open>
  Claim C10. \<^verbatim>\<open>finalizePart\<close> gives the result and the world of \<^verbatim>\<open>finalizePartAsync\<close> with
  the same arguments followed by \<^verbatim>\<open>finish\<close> on the handle returned: the temporary handle
  is null when it is destroyed, so its destructor adds nothing.
\<close>

theorem finalizePart_is_async_then_finish:
  "finalizePart s env sy total_columns_list additional_column_checksums
      additional_columns_substreams w =
   finalizePartAsync_then_finish s env sy total_columns_list additional_column_checksums
      additional_columns_substreams w"
  by (simp add: finalizePart_def finalizePartAsync_then_finish_def Let_def
        Finalizer_destroy_def Finalizer_finish_def split: prod.splits sum.splits option.splits)

lemma sample_finalizePartAsync:
  "finalizePartAsync sample_stream sample_env True None None None sample_world =
     (Inr \<lparr>impl = Some \<lparr>files_to_remove_after_finish = [],
            written_files = [''partition.dat'', ''minmax_d.idx'', ''count.txt'', ''columns.txt'',
              ''metadata_version.txt'', ''default_compression_codec.txt'', ''checksums.txt''],
            sync = True\<rparr>\<rparr>,
      snd (finalizePartAsync sample_stream sample_env True None None None sample_world))"
proof -
  have "fst (finalizePartAsync sample_stream sample_env True None None None sample_world) =
     Inr \<lparr>impl = Some \<lparr>files_to_remove_after_finish = [],
            written_files = [''partition.dat'', ''minmax_d.idx'', ''count.txt'', ''columns.txt'',
              ''metadata_version.txt'', ''default_compression_codec.txt'', ''checksums.txt''],
            sync = True\<rparr>\<rparr>"
    by (simp add: finalizePartAsync_def Let_def sample_prepare_checksums
          sample_finalizePartOnDisk)
  then show ?thesis
    by (metis prod.collapse)
qed

theorem finalizePart_is_async_then_finish_witness:
  "fst (finalizePart sample_stream sample_env True None None None sample_world) = Inr ()
   \<and> new_events (snd (finalizePartAsync sample_stream sample_env True None None None sample_world))
        (snd (finalizePart sample_stream sample_env True None None None sample_world))
       = [WriterFinish True,
          FileFinalize ''partition.dat'', FileSync ''partition.dat'',
          FileFinalize ''minmax_d.idx'', FileSync ''minmax_d.idx'',
          FileFinalize ''count.txt'', FileSync ''count.txt'',
          FileFinalize ''columns.txt'', FileSync ''columns.txt'',
          FileFinalize ''metadata_version.txt'', FileSync ''metadata_version.txt'',
          FileFinalize ''default_compression_codec.txt'', FileSync ''default_compression_codec.txt'',
          FileFinalize ''checksums.txt'', FileSync ''checksums.txt'']"
proof -
  let ?a = "finalizePartAsync sample_stream sample_env True None None None sample_world"
  let ?i = "\<lparr>files_to_remove_after_finish = [],
            written_files = [''partition.dat'', ''minmax_d.idx'', ''count.txt'', ''columns.txt'',
              ''metadata_version.txt'', ''default_compression_codec.txt'', ''checksums.txt''],
            sync = True\<rparr>"
  have "finalizePart sample_stream sample_env True None None None sample_world
          = (Inr (), Impl_finish ?i (snd ?a))"
    unfolding finalizePart_is_async_then_finish finalizePartAsync_then_finish_def
    by (subst sample_finalizePartAsync) (simp add: Finalizer_finish_def)
  then show ?thesis
    by (simp add: new_events_def events_Impl_finish file_events_def)
qed

end
